theory Spec2Isabelle
  imports Complex_Main
begin

text \<open>
  A model of \<open>main.py\<close>, the modelling component of a forecasting pipeline: it builds
  one predictive model per sensor and horizon, fits, saves and loads the models, and
  serves predictions for the feature vectors that arrive on Kafka topics. The theory
  embeds the naming functions and \<open>main\<close> and proves what the specification says of
  them, or shows where the code does otherwise.
\<close>

section \<open>Python values and exceptions\<close>

text \<open>
  The exceptions that the modelled code can meet. All but \<open>SystemExit\<close> derive from
  Python's \<open>Exception\<close>; \<open>SystemExit\<close> derives from \<open>BaseException\<close> only, so an
  \<open>except Exception\<close> clause lets it through. \<open>LibraryError\<close> stands for an exception
  class of the model library (\<open>lib/predictive_model.py\<close>), named by its class name.
\<close>

datatype exn =
    SyntaxError
  | TypeError
  | ValueError
  | KeyError
  | IndexError
  | AttributeError
  | SystemExit
  | KafkaTimeoutError
  | KafkaError
  | LibraryError string

fun is_Exception :: "exn \<Rightarrow> bool" where
  "is_Exception SystemExit = False"
| "is_Exception _ = True"

text \<open>
  The values a payload or a configuration entry can hold. A float is carried as the
  real number it denotes: the pipeline only passes floats on, it never computes with
  them. A dict is the list of its items in insertion order.
\<close>

datatype pyval =
    VNone
  | VBool bool
  | VInt int
  | VFloat real
  | VStr string
  | VList "pyval list"
  | VDict "(pyval \<times> pyval) list"

section \<open>Strings\<close>

text \<open>\<open>str.split(sep)\<close> for a separator of one character: never an empty list.\<close>

fun py_split :: "char \<Rightarrow> string \<Rightarrow> string list" where
  "py_split sep [] = [[]]"
| "py_split sep (c # cs) =
     (if c = sep then [] # py_split sep cs
      else (c # hd (py_split sep cs)) # tl (py_split sep cs))"

text \<open>\<open>xs[i]\<close>: a negative index counts from the end, an index out of range raises.\<close>

definition py_index :: "'a list \<Rightarrow> int \<Rightarrow> exn + 'a" where
  "py_index xs i =
     (if 0 \<le> i \<and> i < int (length xs) then Inr (xs ! nat i)
      else if i < 0 \<and> - int (length xs) \<le> i then Inr (xs ! nat (int (length xs) + i))
      else Inl IndexError)"

text \<open>\<open>s[:k]\<close>: a negative stop counts from the end; \<open>s[:-0]\<close> is \<open>s[:0]\<close>, the empty string.\<close>

definition py_slice_to :: "'a list \<Rightarrow> int \<Rightarrow> 'a list" where
  "py_slice_to s k =
     (if k < 0 then take (nat (int (length s) + k)) s else take (nat k) s)"

text \<open>\<open>str(n)\<close> and \<open>"{}".format(n)\<close> for an int: its decimal digits, with a sign when negative.\<close>

definition digit_char :: "nat \<Rightarrow> char" where
  "digit_char d = char_of (48 + d)"

fun digits :: "nat \<Rightarrow> string" where
  "digits n = (if n < 10 then [digit_char n] else digits (n div 10) @ [digit_char (n mod 10)])"

declare digits.simps [simp del]

definition py_str_int :: "int \<Rightarrow> string" where
  "py_str_int i = (if i < 0 then CHR ''-'' # digits (nat (- i)) else digits (nat i))"

text \<open>
  \<open>int(s)\<close> on a string: white space around the number is dropped, a sign may lead,
  and the digits may be grouped by single underscores. Anything else raises
  \<open>ValueError\<close>. A character is a code point below 256; among these the digits are
  \<open>0\<close> to \<open>9\<close>, and the white space that \<open>int\<close> drops is the tab, the line feed,
  the vertical tab, the form feed, the carriage return, the space, the next-line
  character (133) and the no-break space (160); the separators 28 to 31 are not.
  (The digit limit of recent interpreters is not modelled.)
\<close>

definition is_digit :: "char \<Rightarrow> bool" where
  "is_digit c = (48 \<le> (of_char c :: nat) \<and> (of_char c :: nat) \<le> 57)"

definition digit_val :: "char \<Rightarrow> nat" where
  "digit_val c = of_char c - 48"

definition is_space :: "char \<Rightarrow> bool" where
  "is_space c = ((of_char c :: nat) \<in> {9, 10, 11, 12, 13, 32, 133, 160})"

definition py_strip :: "string \<Rightarrow> string" where
  "py_strip s = rev (dropWhile is_space (rev (dropWhile is_space s)))"

fun no_double_underscore :: "string \<Rightarrow> bool" where
  "no_double_underscore (a # b # cs) =
     ((a \<noteq> CHR ''_'' \<or> b \<noteq> CHR ''_'') \<and> no_double_underscore (b # cs))"
| "no_double_underscore _ = True"

definition int_body_ok :: "string \<Rightarrow> bool" where
  "int_body_ok ds =
     (ds \<noteq> [] \<and> is_digit (hd ds) \<and> is_digit (last ds)
      \<and> list_all (\<lambda>c. is_digit c \<or> c = CHR ''_'') ds \<and> no_double_underscore ds)"

definition digits_value :: "string \<Rightarrow> nat" where
  "digits_value ds = foldl (\<lambda>acc c. 10 * acc + digit_val c) 0 (filter is_digit ds)"

definition parse_nat :: "string \<Rightarrow> exn + nat" where
  "parse_nat ds = (if int_body_ok ds then Inr (digits_value ds) else Inl ValueError)"

definition py_int :: "string \<Rightarrow> exn + int" where
  "py_int s =
     (case py_strip s of
        [] \<Rightarrow> Inl ValueError
      | c # r \<Rightarrow>
          if c = CHR ''-'' then map_sum id (\<lambda>n. - int n) (parse_nat r)
          else if c = CHR ''+'' then map_sum id int (parse_nat r)
          else map_sum id int (parse_nat (c # r)))"

section \<open>File and topic names\<close>

text \<open>
  \<open>get_model_file_name\<close> and \<open>get_data_file_name\<close> (lines 22 to 41): the name is
  formatted from the sensor, the horizon and the \<open>time_period\<close> argument, whose default
  is \<open>'h'\<close>, and joined to the directory. Creating the directory when it is missing is
  an effect on the file system and is not part of the model.
\<close>

definition path_join :: "string \<Rightarrow> string \<Rightarrow> string" where
  \<comment> \<open>\<open>os.path.join\<close> of two components on a POSIX system: an absolute second
      component stands alone\<close>
  "path_join subdir filename =
     (if filename \<noteq> [] \<and> hd filename = CHR ''/'' then filename
      else if subdir = [] \<or> last subdir = CHR ''/'' then subdir @ filename
      else subdir @ ''/'' @ filename)"

definition default_time_period :: string where
  "default_time_period = ''h''"

definition get_model_file_name :: "string \<Rightarrow> int \<Rightarrow> string \<Rightarrow> string" where
  "get_model_file_name sensor horizon time_period =
     path_join ''models'' (''model_'' @ sensor @ ''_'' @ py_str_int horizon @ time_period)"

definition get_data_file_name :: "string \<Rightarrow> int \<Rightarrow> string \<Rightarrow> string" where
  "get_data_file_name sensor horizon time_period =
     path_join ''../../data/fused'' (sensor @ ''_'' @ py_str_int horizon @ time_period @ ''.json'')"

text \<open>\<open>get_input_data_topics\<close> (lines 44 to 50): one topic per sensor and horizon.\<close>

definition topic_name :: "string \<Rightarrow> int \<Rightarrow> string \<Rightarrow> string" where
  "topic_name sensor horizon time_period =
     ''features_'' @ sensor @ ''_'' @ py_str_int horizon @ time_period"

definition get_input_data_topics :: "string list \<Rightarrow> int list \<Rightarrow> string \<Rightarrow> string list" where
  "get_input_data_topics sensors horizons time_period =
     concat (map (\<lambda>sensor. map (\<lambda>horizon. topic_name sensor horizon time_period) horizons) sensors)"

text \<open>
  The key of a record, read from its topic (lines 226 and 227): the horizon first, from
  the last component without the unit suffix, then the sensor, the component before it.
\<close>

definition resolve_topic :: "string \<Rightarrow> string \<Rightarrow> exn + (string \<times> int)" where
  "resolve_topic topic time_offset =
     (case py_index (py_split CHR ''_'' topic) (- 1) of
        Inl e \<Rightarrow> Inl e
      | Inr component \<Rightarrow>
          (case py_int (py_slice_to component (- int (length time_offset))) of
             Inl e \<Rightarrow> Inl e
           | Inr horizon \<Rightarrow>
               (case py_index (py_split CHR ''_'' topic) (- 2) of
                  Inl e \<Rightarrow> Inl e
                | Inr sensor \<Rightarrow> Inr (sensor, horizon))))"

section \<open>Dicts and subscription\<close>

text \<open>\<open>d[k] = v\<close> and \<open>d[k]\<close> on a dict with string keys, kept as the list of its items.\<close>

fun dict_set :: "string \<Rightarrow> 'v \<Rightarrow> (string \<times> 'v) list \<Rightarrow> (string \<times> 'v) list" where
  "dict_set k v [] = [(k, v)]"
| "dict_set k v ((k', v') # d) =
     (if k' = k then (k', v) # d else (k', v') # dict_set k v d)"

definition dict_get :: "(string \<times> 'v) list \<Rightarrow> string \<Rightarrow> exn + 'v" where
  "dict_get d k = (case map_of d k of None \<Rightarrow> Inl KeyError | Some v \<Rightarrow> Inr v)"

text \<open>
  A dict whose keys are any hashable values, as a payload can hold: keys are compared
  with \<open>==\<close>, under which \<open>1\<close>, \<open>1.0\<close> and \<open>True\<close> are one key; lists and dicts are
  not hashable.
\<close>

fun hashable :: "pyval \<Rightarrow> bool" where
  "hashable (VList _) = False"
| "hashable (VDict _) = False"
| "hashable _ = True"

fun number :: "pyval \<Rightarrow> real option" where
  "number (VBool b) = Some (if b then 1 else 0)"
| "number (VInt i) = Some (of_int i)"
| "number (VFloat r) = Some r"
| "number _ = None"

definition py_eq :: "pyval \<Rightarrow> pyval \<Rightarrow> bool" where
  "py_eq a b = (case number a of Some x \<Rightarrow> number b = Some x | None \<Rightarrow> a = b)"

fun pydict_set :: "pyval \<Rightarrow> pyval \<Rightarrow> (pyval \<times> pyval) list \<Rightarrow> (pyval \<times> pyval) list" where
  "pydict_set k v [] = [(k, v)]"
| "pydict_set k v ((k', v') # d) =
     (if py_eq k' k then (k', v) # d else (k', v') # pydict_set k v d)"

fun build_dict :: "(pyval \<times> pyval) list \<Rightarrow> (pyval \<times> pyval) list \<Rightarrow> exn + (pyval \<times> pyval) list" where
  "build_dict d [] = Inr d"
| "build_dict d ((k, v) # items) =
     (if hashable k then build_dict (pydict_set k v d) items else Inl TypeError)"

fun pydict_get :: "(pyval \<times> pyval) list \<Rightarrow> pyval \<Rightarrow> exn + pyval" where
  "pydict_get [] k = Inl KeyError"
| "pydict_get ((k', v') # d) k = (if py_eq k' k then Inr v' else pydict_get d k)"

fun as_index :: "pyval \<Rightarrow> int option" where
  "as_index (VInt i) = Some i"
| "as_index (VBool b) = Some (if b then 1 else 0)"
| "as_index _ = None"

text \<open>\<open>x[k]\<close> on a value: a dict, a list and a string can be subscripted, nothing else.\<close>

fun py_getitem :: "pyval \<Rightarrow> pyval \<Rightarrow> exn + pyval" where
  "py_getitem (VDict d) k = (if hashable k then pydict_get d k else Inl TypeError)"
| "py_getitem (VList xs) k =
     (case as_index k of None \<Rightarrow> Inl TypeError | Some i \<Rightarrow> py_index xs i)"
| "py_getitem (VStr s) k =
     (case as_index k of None \<Rightarrow> Inl TypeError
      | Some i \<Rightarrow> map_sum id (\<lambda>c. VStr [c]) (py_index s i))"
| "py_getitem _ k = Inl TypeError"

section \<open>What the program prints\<close>

text \<open>
  The lines the program writes, kept by their content rather than as rendered text: the
  rendering of a float or of a dict plays no part in what follows. The traceback that
  \<open>traceback.print_exc()\<close> writes to the error stream is one of them.
\<close>

datatype line =
    Banner string
  | Initializing string int string
  | Trained string int string pyval
  | Traceback exn
  | SavedModel string
  | LoadedModel string
  | Subscribed "string list"
  | Printed "pyval list"
  | Published string "(string \<times> pyval) list"
  | ProducerError exn
  | ConsumerError exn

section \<open>Payloads and \<open>eval\<close>\<close>

text \<open>
  Line 218 decodes a payload with \<open>eval\<close>: the bytes are parsed as a Python expression
  and the expression is evaluated in the running process, whatever it is. The model takes
  the payload after parsing (\<open>Unparsable\<close> when the parser rejects it with
  \<open>SyntaxError\<close>) and covers two kinds of expression, no other.

  A display of data is a constant (\<open>None\<close>, \<open>True\<close>, \<open>False\<close>, a number, a string), a
  list display of displays of data or a dict display of them. Evaluating it runs no code
  of the payload's choosing and touches nothing in the process; it can only fail with
  \<open>TypeError\<close>, on a key that is not hashable, and it does so whether the interpreter
  builds the dict once all items are evaluated or item by item.
\<close>

datatype display =
    Lit pyval
  | ListDisplay "display list"
  | DictDisplay "(display \<times> display) list"

function py_display :: "display \<Rightarrow> exn + pyval"
  and py_displays :: "display list \<Rightarrow> exn + pyval list"
  and py_items :: "(display \<times> display) list \<Rightarrow> exn + (pyval \<times> pyval) list"
where
  "py_display (Lit v) = Inr v"
| "py_display (ListDisplay ds) = map_sum id VList (py_displays ds)"
| "py_display (DictDisplay items) =
     (case py_items items of
        Inl x \<Rightarrow> Inl x
      | Inr kvs \<Rightarrow> map_sum id VDict (build_dict [] kvs))"
| "py_displays [] = Inr []"
| "py_displays (d # ds) =
     (case py_display d of
        Inl x \<Rightarrow> Inl x
      | Inr v \<Rightarrow> map_sum id ((#) v) (py_displays ds))"
| "py_items [] = Inr []"
| "py_items ((kd, vd) # items) =
     (case py_display kd of
        Inl x \<Rightarrow> Inl x
      | Inr k \<Rightarrow>
          (case py_display vd of
             Inl x \<Rightarrow> Inl x
           | Inr v \<Rightarrow> map_sum id ((#) (k, v)) (py_items items)))"
  by pat_completeness auto
termination
  by (relation "measure (\<lambda>x. case x of
          Inl d \<Rightarrow> size d
        | Inr (Inl ds) \<Rightarrow> size_list size ds
        | Inr (Inr items) \<Rightarrow> size_list (size_prod size size) items)")
     auto

text \<open>
  The other kind is a call, with positional arguments, of one of three names that \<open>eval\<close>
  finds among the builtins: \<open>print\<close>, which writes its arguments and returns \<open>None\<close>,
  and \<open>exit\<close> and \<open>quit\<close>, which raise \<open>SystemExit\<close> when given one argument at most
  and \<open>TypeError\<close> otherwise (the interpreter is Python 3, where \<open>print\<close> is a
  function). An argument is a display of data or such a call again, and the arguments
  are evaluated from left to right before the call is made. What \<open>print\<close> writes goes
  to the lines printed. These calls stand for the code a payload can make the process
  run; the expressions of Python that are neither a display of data nor such a call are
  outside the model, and nothing below is said of them.
\<close>

datatype builtin = Print | Exit | Quit

datatype pyexpr =
    Display display
  | Call builtin "pyexpr list"

datatype payload = Unparsable | Source pyexpr

fun call_builtin :: "builtin \<Rightarrow> pyval list \<Rightarrow> line list \<Rightarrow> (exn + pyval) \<times> line list" where
  "call_builtin Print vs out = (Inr VNone, out @ [Printed vs])"
| "call_builtin Exit vs out = (if length vs \<le> 1 then Inl SystemExit else Inl TypeError, out)"
| "call_builtin Quit vs out = (if length vs \<le> 1 then Inl SystemExit else Inl TypeError, out)"

fun py_eval :: "pyexpr \<Rightarrow> line list \<Rightarrow> (exn + pyval) \<times> line list"
  and py_eval_list :: "pyexpr list \<Rightarrow> line list \<Rightarrow> (exn + pyval list) \<times> line list"
where
  "py_eval (Display d) out = (py_display d, out)"
| "py_eval (Call f args) out =
     (case py_eval_list args out of
        (Inl x, out') \<Rightarrow> (Inl x, out')
      | (Inr vs, out') \<Rightarrow> call_builtin f vs out')"
| "py_eval_list [] out = (Inr [], out)"
| "py_eval_list (e # es) out =
     (case py_eval e out of
        (Inl x, out') \<Rightarrow> (Inl x, out')
      | (Inr v, out') \<Rightarrow>
          (case py_eval_list es out' of
             (Inl x, out'') \<Rightarrow> (Inl x, out'')
           | (Inr vs, out'') \<Rightarrow> (Inr (v # vs), out'')))"

definition decode :: "payload \<Rightarrow> line list \<Rightarrow> (exn + pyval) \<times> line list" where
  "decode p out = (case p of Unparsable \<Rightarrow> (Inl SyntaxError, out) | Source e \<Rightarrow> py_eval e out)"

text \<open>The payloads that only denote data, if they parse at all: no call in them.\<close>

fun is_data :: "pyexpr \<Rightarrow> bool" where
  "is_data (Display d) = True"
| "is_data (Call f args) = False"

fun payload_is_data :: "payload \<Rightarrow> bool" where
  "payload_is_data Unparsable = True"
| "payload_is_data (Source e) = is_data e"

section \<open>The model class\<close>

text \<open>
  \<open>PredictiveModel\<close> comes from \<open>lib/predictive_model.py\<close>, which is not among the
  sources. Its operations are parameters of everything below: a constructor and the
  methods that \<open>main\<close> calls, each a function of the object's state \<open>'m\<close> that returns
  a value or an exception together with the state the call leaves the object in.
\<close>

record 'm predictive_model =
  construct :: "string \<Rightarrow> int \<Rightarrow> (string \<times> pyval) list \<Rightarrow> exn + 'm"
  fit :: "'m \<Rightarrow> string \<Rightarrow> (exn + pyval) \<times> 'm"
  save :: "'m \<Rightarrow> string \<Rightarrow> (exn + unit) \<times> 'm"
  load :: "'m \<Rightarrow> string \<Rightarrow> (exn + unit) \<times> 'm"
  predict :: "'m \<Rightarrow> pyval list \<Rightarrow> pyval \<Rightarrow> (exn + pyval list) \<times> 'm"
  predictability :: "'m \<Rightarrow> pyval"
  evaluation :: "'m \<Rightarrow> (string \<times> pyval) list \<Rightarrow> pyval \<Rightarrow> (exn + (string \<times> pyval) list) \<times> 'm"

definition evaluate ::
  "'m predictive_model \<Rightarrow> 'm \<Rightarrow> (string \<times> pyval) list \<Rightarrow> pyval
     \<Rightarrow> (exn + (string \<times> pyval) list) \<times> 'm" where
  \<comment> \<open>Modelled from the spec: \<open>PredictiveModel.evaluate\<close>, of
      \<open>lib/predictive_model.py\<close>, is missing. Section 4.1: it "compares the most recent
      prediction(s) against an observed measurement, updates the running predictability
      estimate, and returns the output record with evaluation fields appended" (line 241
      of \<open>main.py\<close> says the same: "appends evaluations to output"). The fields and the
      new state are those of the parameter \<open>evaluation\<close>.\<close>
  "evaluate pm m output measurement =
     (case evaluation pm m output measurement of
        (Inl e, m') \<Rightarrow> (Inl e, m')
      | (Inr added, m') \<Rightarrow> (Inr (output @ added), m'))"

section \<open>Program state and control\<close>

text \<open>
  The state \<open>main\<close> works on: the registry \<open>models\<close> (sensor, then horizon), the lines
  printed, the records the producer accepted, and the seconds spent waiting for the
  broker. A statement takes the state and returns a value or the exception it raises,
  with the state it leaves.
\<close>

record 'm state =
  models :: "string \<rightharpoonup> (int \<rightharpoonup> 'm)"
  stdout :: "line list"
  sent :: "(string \<times> (string \<times> pyval) list) list"
  waited :: nat

definition ret :: "'a \<Rightarrow> 's \<Rightarrow> (exn + 'a) \<times> 's" where
  "ret x st = (Inr x, st)"

definition raise :: "exn \<Rightarrow> 's \<Rightarrow> (exn + 'a) \<times> 's" where
  "raise e st = (Inl e, st)"

definition pure :: "exn + 'a \<Rightarrow> 's \<Rightarrow> (exn + 'a) \<times> 's" where
  "pure r st = (r, st)"

definition andthen ::
  "('s \<Rightarrow> (exn + 'a) \<times> 's) \<Rightarrow> ('a \<Rightarrow> 's \<Rightarrow> (exn + 'b) \<times> 's) \<Rightarrow> 's \<Rightarrow> (exn + 'b) \<times> 's" where
  "andthen f g st = (case f st of (Inl e, st') \<Rightarrow> (Inl e, st') | (Inr x, st') \<Rightarrow> g x st')"

definition only_if :: "bool \<Rightarrow> ('s \<Rightarrow> (exn + unit) \<times> 's) \<Rightarrow> 's \<Rightarrow> (exn + unit) \<times> 's" where
  "only_if b f st = (if b then f st else (Inr (), st))"

text \<open>\<open>try: ... except Exception as e: ...\<close>: what is not an \<open>Exception\<close> goes through.\<close>

definition try_except ::
  "('s \<Rightarrow> (exn + unit) \<times> 's) \<Rightarrow> (exn \<Rightarrow> 's \<Rightarrow> (exn + unit) \<times> 's) \<Rightarrow> 's \<Rightarrow> (exn + unit) \<times> 's" where
  "try_except body handler st =
     (case body st of
        (Inl e, st') \<Rightarrow> if is_Exception e then handler e st' else (Inl e, st')
      | (Inr u, st') \<Rightarrow> (Inr u, st'))"

text \<open>\<open>for x in xs: ...\<close> over a list, and over a name that may still hold \<open>None\<close>.\<close>

primrec for_each :: "'a list \<Rightarrow> ('a \<Rightarrow> 's \<Rightarrow> (exn + unit) \<times> 's) \<Rightarrow> 's \<Rightarrow> (exn + unit) \<times> 's" where
  "for_each [] body = ret ()"
| "for_each (x # xs) body = andthen (body x) (\<lambda>_. for_each xs body)"

definition for_in :: "'a list option \<Rightarrow> ('a \<Rightarrow> 's \<Rightarrow> (exn + unit) \<times> 's) \<Rightarrow> 's \<Rightarrow> (exn + unit) \<times> 's" where
  "for_in xs body = (case xs of None \<Rightarrow> raise TypeError | Some ys \<Rightarrow> for_each ys body)"

definition print_line :: "line \<Rightarrow> 'm state \<Rightarrow> (exn + unit) \<times> 'm state" where
  "print_line l st = (Inr (), st\<lparr>stdout := stdout st @ [l]\<rparr>)"

text \<open>
  \<open>models[sensor][horizon]\<close>, and a method call on that object: the object is its entry
  in the registry, which the call leaves in a new state.
\<close>

definition get_model :: "(string \<rightharpoonup> (int \<rightharpoonup> 'm)) \<Rightarrow> string \<Rightarrow> int \<Rightarrow> exn + 'm" where
  "get_model reg sensor horizon =
     (case reg sensor of
        None \<Rightarrow> Inl KeyError
      | Some d \<Rightarrow> (case d horizon of None \<Rightarrow> Inl KeyError | Some m \<Rightarrow> Inr m))"

definition set_model ::
  "(string \<rightharpoonup> (int \<rightharpoonup> 'm)) \<Rightarrow> string \<Rightarrow> int \<Rightarrow> 'm \<Rightarrow> exn + (string \<rightharpoonup> (int \<rightharpoonup> 'm))" where
  "set_model reg sensor horizon m =
     (case reg sensor of
        None \<Rightarrow> Inl KeyError
      | Some d \<Rightarrow> Inr (reg(sensor \<mapsto> d(horizon \<mapsto> m))))"

definition lookup_model :: "string \<Rightarrow> int \<Rightarrow> 'm state \<Rightarrow> (exn + 'm) \<times> 'm state" where
  "lookup_model sensor horizon st = (get_model (models st) sensor horizon, st)"

definition put_model ::
  "(string \<rightharpoonup> (int \<rightharpoonup> 'm)) \<Rightarrow> string \<Rightarrow> int \<Rightarrow> 'm \<Rightarrow> (string \<rightharpoonup> (int \<rightharpoonup> 'm))" where
  "put_model reg sensor horizon m =
     (case set_model reg sensor horizon m of Inl e \<Rightarrow> reg | Inr reg' \<Rightarrow> reg')"

definition call_model ::
  "string \<Rightarrow> int \<Rightarrow> ('m \<Rightarrow> (exn + 'a) \<times> 'm) \<Rightarrow> 'm state \<Rightarrow> (exn + 'a) \<times> 'm state" where
  "call_model sensor horizon method st =
     (case get_model (models st) sensor horizon of
        Inl e \<Rightarrow> (Inl e, st)
      | Inr m \<Rightarrow>
          (case method m of
             (r, m') \<Rightarrow> (r, st\<lparr>models := put_model (models st) sensor horizon m'\<rparr>)))"

section \<open>Configuration\<close>

text \<open>
  The configuration is the JSON object of the file, entry by entry in file order, typed
  as section 3 of the specification has it: sensors are strings, horizons integers, the
  time offset a string. \<open>Setting\<close> is any other entry (its key is none of the three).
\<close>

datatype entry =
    Sensors "string list"
  | PredictionHorizons "int list"
  | TimeOffset string
  | Setting string pyval

fun entry_key :: "entry \<Rightarrow> string" where
  "entry_key (Sensors xs) = ''sensors''"
| "entry_key (PredictionHorizons hs) = ''prediction_horizons''"
| "entry_key (TimeOffset u) = ''time_offset''"
| "entry_key (Setting k v) = k"

fun entry_val :: "entry \<Rightarrow> pyval" where
  "entry_val (Sensors xs) = VList (map VStr xs)"
| "entry_val (PredictionHorizons hs) = VList (map VInt hs)"
| "entry_val (TimeOffset u) = VStr u"
| "entry_val (Setting k v) = v"

definition conf_get :: "entry list \<Rightarrow> string \<Rightarrow> exn + pyval" where
  "conf_get conf k = dict_get (map (\<lambda>e. (entry_key e, entry_val e)) conf) k"

text \<open>
  \<open>str.lower()\<close>, on code points below 256: the cased characters with another lower
  case form are \<open>A\<close> to \<open>Z\<close> (65 to 90) and the capital letters 192 to 222 but for the
  multiplication sign (215); the lower case form is 32 further on.
\<close>

definition is_upper :: "char \<Rightarrow> bool" where
  "is_upper c =
     ((65 \<le> (of_char c :: nat) \<and> (of_char c :: nat) \<le> 90)
      \<or> (192 \<le> (of_char c :: nat) \<and> (of_char c :: nat) \<le> 222 \<and> (of_char c :: nat) \<noteq> 215))"

definition lower_char :: "char \<Rightarrow> char" where
  "lower_char c = (if is_upper c then char_of ((of_char c :: nat) + 32) else c)"

definition py_lower :: "string \<Rightarrow> string" where
  "py_lower s = map lower_char s"

record settings =
  sensors :: "string list option"
  horizons :: "int list option"
  kwargs :: "(string \<times> pyval) list"
  time_offset :: string

text \<open>Lines 128 to 134: the names before the loop, and the first look at \<open>time_offset\<close>.\<close>

fun find_time_offset :: "entry list \<Rightarrow> string option" where
  "find_time_offset [] = None"
| "find_time_offset (TimeOffset u # conf) = Some u"
| "find_time_offset (_ # conf) = find_time_offset conf"

definition initial_settings :: "entry list \<Rightarrow> settings" where
  "initial_settings conf =
     \<lparr>sensors = None, horizons = None, kwargs = [],
      time_offset = (case find_time_offset conf of None \<Rightarrow> ''h'' | Some u \<Rightarrow> py_lower u)\<rparr>"

text \<open>Lines 136 to 144: the loop over the keys of the configuration.\<close>

fun read_entry :: "entry \<Rightarrow> settings \<Rightarrow> settings" where
  "read_entry (Sensors xs) s = s\<lparr>sensors := Some xs\<rparr>"
| "read_entry (PredictionHorizons hs) s = s\<lparr>horizons := Some hs\<rparr>"
| "read_entry (TimeOffset u) s =
     s\<lparr>kwargs := dict_set ''time_offset'' (VStr u) (kwargs s), time_offset := py_lower u\<rparr>"
| "read_entry (Setting k v) s = s\<lparr>kwargs := dict_set k v (kwargs s)\<rparr>"

definition read_conf :: "entry list \<Rightarrow> settings" where
  "read_conf conf = fold read_entry conf (initial_settings conf)"

section \<open>The phases of \<open>main\<close>\<close>

text \<open>
  \<open>main\<close> is modelled from line 126 on, with the arguments parsed and the configuration
  loaded. Each phase is a statement on the program state.
\<close>

record args =
  arg_fit :: bool
  arg_save :: bool
  arg_load :: bool
  arg_predict :: bool
  arg_watchdog :: bool

text \<open>Lines 146 to 152: the registry is filled, one constructor call per pass of the inner loop.\<close>

definition store_model :: "string \<Rightarrow> int \<Rightarrow> 'm \<Rightarrow> 'm state \<Rightarrow> (exn + unit) \<times> 'm state" where
  "store_model sensor horizon m st =
     (case set_model (models st) sensor horizon m of
        Inl e \<Rightarrow> (Inl e, st)
      | Inr reg \<Rightarrow> (Inr (), st\<lparr>models := reg\<rparr>))"

definition init_model ::
  "'m predictive_model \<Rightarrow> settings \<Rightarrow> string \<Rightarrow> int \<Rightarrow> 'm state \<Rightarrow> (exn + unit) \<times> 'm state" where
  "init_model pm cfg sensor horizon =
     andthen (pure (construct pm sensor horizon (kwargs cfg))) (\<lambda>m.
     andthen (store_model sensor horizon m) (\<lambda>_.
     print_line (Initializing sensor horizon (time_offset cfg))))"

definition init_sensor ::
  "'m predictive_model \<Rightarrow> settings \<Rightarrow> string \<Rightarrow> 'm state \<Rightarrow> (exn + unit) \<times> 'm state" where
  "init_sensor pm cfg sensor =
     andthen (\<lambda>st. (Inr (), st\<lparr>models := (models st)(sensor \<mapsto> Map.empty)\<rparr>)) (\<lambda>_.
     for_in (horizons cfg) (init_model pm cfg sensor))"

definition init_phase :: "'m predictive_model \<Rightarrow> settings \<Rightarrow> 'm state \<Rightarrow> (exn + unit) \<times> 'm state" where
  "init_phase pm cfg = for_in (sensors cfg) (init_sensor pm cfg)"

text \<open>
  Lines 155 to 171: fitting. The name of the data file is asked for without a
  \<open>time_period\<close>, so with its default. A failure of one model is caught and printed.
\<close>

definition fit_model ::
  "'m predictive_model \<Rightarrow> settings \<Rightarrow> string \<Rightarrow> int \<Rightarrow> 'm state \<Rightarrow> (exn + unit) \<times> 'm state" where
  "fit_model pm cfg sensor horizon =
     (let data = get_data_file_name sensor horizon default_time_period in
      try_except
        (andthen (call_model sensor horizon (\<lambda>m. fit pm m data)) (\<lambda>score.
         print_line (Trained sensor horizon (time_offset cfg) score)))
        (\<lambda>e. print_line (Traceback e)))"

definition fit_phase :: "'m predictive_model \<Rightarrow> settings \<Rightarrow> 'm state \<Rightarrow> (exn + unit) \<times> 'm state" where
  "fit_phase pm cfg =
     andthen (print_line (Banner ''=== Learning phase ==='')) (\<lambda>_.
     for_in (sensors cfg) (\<lambda>sensor. for_in (horizons cfg) (fit_model pm cfg sensor)))"

text \<open>
  Lines 174 to 193: saving and loading. The file name is asked for without a
  \<open>time_period\<close> as well. Nothing is caught here.
\<close>

definition save_model ::
  "'m predictive_model \<Rightarrow> string \<Rightarrow> int \<Rightarrow> 'm state \<Rightarrow> (exn + unit) \<times> 'm state" where
  "save_model pm sensor horizon =
     andthen (lookup_model sensor horizon) (\<lambda>model.
     let filename = get_model_file_name sensor horizon default_time_period in
     andthen (call_model sensor horizon (\<lambda>m. save pm m filename)) (\<lambda>_.
     print_line (SavedModel filename)))"

definition save_phase :: "'m predictive_model \<Rightarrow> settings \<Rightarrow> 'm state \<Rightarrow> (exn + unit) \<times> 'm state" where
  "save_phase pm cfg =
     andthen (print_line (Banner ''=== Saving phase ==='')) (\<lambda>_.
     for_in (sensors cfg) (\<lambda>sensor. for_in (horizons cfg) (save_model pm sensor)))"

definition load_model ::
  "'m predictive_model \<Rightarrow> string \<Rightarrow> int \<Rightarrow> 'm state \<Rightarrow> (exn + unit) \<times> 'm state" where
  "load_model pm sensor horizon =
     andthen (lookup_model sensor horizon) (\<lambda>model.
     let filename = get_model_file_name sensor horizon default_time_period in
     andthen (call_model sensor horizon (\<lambda>m. load pm m filename)) (\<lambda>_.
     print_line (LoadedModel filename)))"

definition load_phase :: "'m predictive_model \<Rightarrow> settings \<Rightarrow> 'm state \<Rightarrow> (exn + unit) \<times> 'm state" where
  "load_phase pm cfg =
     andthen (print_line (Banner ''=== Loading phase ==='')) (\<lambda>_.
     for_in (sensors cfg) (\<lambda>sensor. for_in (horizons cfg) (load_model pm sensor)))"

text \<open>
  Lines 195 to 200: the watchdog. \<open>conf.keys\<close> is the bound method, not its result, and
  \<open>in\<close> raises \<open>TypeError\<close> on an object that is neither a container nor iterable.
  \<open>conf.watchdog_path\<close> is an attribute of a dict, which has none of that name, so
  the call of \<open>ping_watchdog\<close> (lines 53 to 61, a request and a timer) is never reached
  and is not modelled. (Of a dict's attributes the public methods are modelled, not the
  special ones.)
\<close>

datatype pyobject = DictObject "entry list" | BuiltinMethod string

definition dict_methods :: "string list" where
  "dict_methods = [''clear'', ''copy'', ''fromkeys'', ''get'', ''items'', ''keys'', ''pop'',
     ''popitem'', ''setdefault'', ''update'', ''values'']"

definition py_getattr :: "pyobject \<Rightarrow> string \<Rightarrow> exn + pyobject" where
  "py_getattr obj name =
     (case obj of
        DictObject conf \<Rightarrow>
          if name \<in> set dict_methods then Inr (BuiltinMethod name) else Inl AttributeError
      | BuiltinMethod m \<Rightarrow> Inl AttributeError)"

fun py_in :: "string \<Rightarrow> pyobject \<Rightarrow> exn + bool" where
  "py_in k (DictObject conf) = Inr (k \<in> set (map entry_key conf))"
| "py_in k (BuiltinMethod m) = Inl TypeError"

definition watchdog_phase :: "entry list \<Rightarrow> 'm state \<Rightarrow> (exn + unit) \<times> 'm state" where
  "watchdog_phase conf =
     andthen (pure (py_getattr (DictObject conf) ''keys'')) (\<lambda>keys.
     andthen (pure (py_in ''watchdog_path'' keys)) (\<lambda>present.
     if present then
       andthen (print_line (Banner ''=== Watchdog started ==='')) (\<lambda>_.
       andthen (pure (py_getattr (DictObject conf) ''watchdog_path'')) (\<lambda>path.
       ret ()))
     else print_line (Banner ''Watchdog path missing'')))"

section \<open>Live predictions\<close>

text \<open>
  An inbound message is its topic and its payload. With each message comes what
  the broker will do with the record published for it: \<open>producer.send\<close> raises, or
  returns a future that completes after some seconds, with a failure or without, or
  never. \<open>future.get(timeout)\<close> waits that long at most and raises
  \<open>KafkaTimeoutError\<close> when the future has not completed by then.

  The consumer is iterated by \<open>for msg in consumer\<close> (line 216): each time the loop
  asks for the next message, the consumer yields one or raises.
\<close>

datatype message = Message (msg_topic: string) (msg_value: payload)

datatype future = CompletesAfter nat "exn option" | NeverCompletes

datatype delivery = SendRaises exn | SendReturns future

datatype arrival = Yields message delivery | Fails exn

definition producer_send ::
  "string \<Rightarrow> (string \<times> pyval) list \<Rightarrow> delivery \<Rightarrow> 'm state \<Rightarrow> (exn + future) \<times> 'm state" where
  "producer_send output_topic output d st =
     (case d of
        SendRaises e \<Rightarrow> (Inl e, st)
      | SendReturns f \<Rightarrow> (Inr f, st\<lparr>sent := sent st @ [(output_topic, output)]\<rparr>))"

definition await :: "future \<Rightarrow> nat \<Rightarrow> exn option \<times> nat" where
  \<comment> \<open>what \<open>get\<close> raises, if anything, and the seconds it has waited\<close>
  "await f timeout =
     (case f of
        CompletesAfter t r \<Rightarrow> if t \<le> timeout then (r, t) else (Some KafkaTimeoutError, timeout)
      | NeverCompletes \<Rightarrow> (Some KafkaTimeoutError, timeout))"

definition future_get :: "future \<Rightarrow> nat \<Rightarrow> 'm state \<Rightarrow> (exn + unit) \<times> 'm state" where
  "future_get f timeout st =
     (case await f timeout of
        (r, t) \<Rightarrow> ((case r of None \<Rightarrow> Inr () | Some e \<Rightarrow> Inl e), st\<lparr>waited := waited st + t\<rparr>))"

text \<open>Lines 218 to 241: from the payload to the evaluated output record.\<close>

definition eval_payload :: "payload \<Rightarrow> 'm state \<Rightarrow> (exn + pyval) \<times> 'm state" where
  "eval_payload p st = (case decode p (stdout st) of (r, out) \<Rightarrow> (r, st\<lparr>stdout := out\<rparr>))"

definition score_record ::
  "'m predictive_model \<Rightarrow> string \<Rightarrow> message
     \<Rightarrow> 'm state \<Rightarrow> (exn + (string \<times> (string \<times> pyval) list)) \<times> 'm state" where
  "score_record pm offset msg =
     andthen (eval_payload (msg_value msg)) (\<lambda>rec.
     andthen (pure (py_getitem rec (VStr ''timestamp''))) (\<lambda>timestamp.
     andthen (pure (py_getitem rec (VStr ''ftr_vector''))) (\<lambda>ftr_vector.
     andthen (pure (py_getitem ftr_vector (VInt 0))) (\<lambda>measurement.
     andthen (pure (resolve_topic (msg_topic msg) offset)) (\<lambda>(sensor, horizon).
     andthen (lookup_model sensor horizon) (\<lambda>model.
     andthen (call_model sensor horizon (\<lambda>m. predict pm m [ftr_vector] timestamp)) (\<lambda>predictions.
     andthen (pure (py_index predictions 0)) (\<lambda>prediction.
     andthen (call_model sensor horizon (\<lambda>m. (Inr (predictability pm m), m))) (\<lambda>p.
     let output = [(''stampm'', timestamp), (''value'', prediction), (''sensor_id'', VStr sensor),
                   (''horizon'', VInt horizon), (''predictability'', p)] in
     andthen (call_model sensor horizon (\<lambda>m. evaluate pm m output measurement)) (\<lambda>output.
     ret (sensor, output)))))))))))"

text \<open>Lines 244 to 252: the record is handed to the producer and the acknowledgment awaited.\<close>

definition publish ::
  "string \<Rightarrow> (string \<times> pyval) list \<Rightarrow> delivery \<Rightarrow> 'm state \<Rightarrow> (exn + unit) \<times> 'm state" where
  "publish sensor output d =
     (let output_topic = ''predictions_'' @ sensor in
      andthen (producer_send output_topic output d) (\<lambda>future.
      andthen (print_line (Published output_topic output)) (\<lambda>_.
      try_except (future_get future 10) (\<lambda>e. print_line (ProducerError e)))))"

text \<open>
  Lines 217 to 255: one pass of the loop. Line 216: the loop over what the consumer
  does; an exception of the consumer itself is raised outside the \<open>try\<close> of the pass.
\<close>

definition handle_record ::
  "'m predictive_model \<Rightarrow> string \<Rightarrow> message \<times> delivery \<Rightarrow> 'm state \<Rightarrow> (exn + unit) \<times> 'm state" where
  "handle_record pm offset md =
     try_except
       (andthen (score_record pm offset (fst md)) (\<lambda>(sensor, output).
        publish sensor output (snd md)))
       (\<lambda>e. print_line (ConsumerError e))"

definition next_message :: "arrival \<Rightarrow> 'm state \<Rightarrow> (exn + message \<times> delivery) \<times> 'm state" where
  "next_message a = (case a of Yields msg d \<Rightarrow> ret (msg, d) | Fails e \<Rightarrow> raise e)"

definition consume ::
  "'m predictive_model \<Rightarrow> string \<Rightarrow> arrival list \<Rightarrow> 'm state \<Rightarrow> (exn + unit) \<times> 'm state" where
  "consume pm offset inbound =
     for_each inbound (\<lambda>a. andthen (next_message a) (handle_record pm offset))"

text \<open>
  Lines 203 to 214: the topics, the consumer and the producer. The broker itself is not
  modelled: connecting and subscribing succeed, and \<open>inbound\<close> is what the consumer
  does each time the loop asks it for a message, as far as it is looked at.
\<close>

definition input_topics :: "settings \<Rightarrow> exn + string list" where
  "input_topics cfg =
     (case sensors cfg of
        None \<Rightarrow> Inl TypeError
      | Some ss \<Rightarrow>
          if ss = [] then Inr []
          else (case horizons cfg of
                  None \<Rightarrow> Inl TypeError
                | Some hs \<Rightarrow> Inr (get_input_data_topics ss hs (time_offset cfg))))"

definition predict_phase ::
  "'m predictive_model \<Rightarrow> settings \<Rightarrow> entry list \<Rightarrow> arrival list
     \<Rightarrow> 'm state \<Rightarrow> (exn + unit) \<times> 'm state" where
  "predict_phase pm cfg conf inbound =
     andthen (print_line (Banner ''=== Predictions phase ==='')) (\<lambda>_.
     andthen (pure (input_topics cfg)) (\<lambda>topics.
     andthen (pure (conf_get conf ''bootstrap_servers'')) (\<lambda>servers.
     andthen (print_line (Subscribed topics)) (\<lambda>_.
     consume pm (time_offset cfg) inbound))))"

section \<open>\<open>main\<close>\<close>

definition initial_state :: "'m state" where
  "initial_state = \<lparr>models = Map.empty, stdout = [], sent = [], waited = 0\<rparr>"

definition main_from ::
  "'m predictive_model \<Rightarrow> args \<Rightarrow> entry list \<Rightarrow> arrival list
     \<Rightarrow> 'm state \<Rightarrow> (exn + unit) \<times> 'm state" where
  "main_from pm a conf inbound =
     andthen (print_line (Banner ''=== Init phase ==='')) (\<lambda>_.
     let cfg = read_conf conf in
     andthen (init_phase pm cfg) (\<lambda>_.
     andthen (only_if (arg_fit a) (fit_phase pm cfg)) (\<lambda>_.
     andthen (only_if (arg_save a) (save_phase pm cfg)) (\<lambda>_.
     andthen (only_if (arg_load a) (load_phase pm cfg)) (\<lambda>_.
     andthen (only_if (arg_watchdog a) (watchdog_phase conf)) (\<lambda>_.
     only_if (arg_predict a) (predict_phase pm cfg conf inbound)))))))"

definition main ::
  "'m predictive_model \<Rightarrow> args \<Rightarrow> entry list \<Rightarrow> arrival list
     \<Rightarrow> (exn + unit) \<times> 'm state" where
  "main pm a conf inbound = main_from pm a conf inbound initial_state"

section \<open>A model class to run the program with\<close>

text \<open>
  A stand-in for \<open>PredictiveModel\<close>, for running the program on concrete inputs: it
  finds the files listed in \<open>files\<close> and no other, predicts \<open>21.5\<close> for every feature
  vector, and counts the evaluations as its predictability.
\<close>

record demo =
  demo_sensor :: string
  demo_horizon :: int
  fitted :: bool
  scored :: nat

definition demo_model :: "string list \<Rightarrow> demo predictive_model" where
  "demo_model files =
     \<lparr>construct = (\<lambda>sensor horizon kw.
        Inr \<lparr>demo_sensor = sensor, demo_horizon = horizon, fitted = False, scored = 0\<rparr>),
      fit = (\<lambda>m data.
        if data \<in> set files then (Inr (VFloat 1), m\<lparr>fitted := True\<rparr>)
        else (Inl (LibraryError ''DataError''), m)),
      save = (\<lambda>m path. (Inr (), m)),
      load = (\<lambda>m path.
        if path \<in> set files then (Inr (), m\<lparr>fitted := True\<rparr>)
        else (Inl (LibraryError ''PersistenceError''), m)),
      predict = (\<lambda>m ftr_vectors timestamp. (Inr (map (\<lambda>v. VFloat 21.5) ftr_vectors), m)),
      predictability = (\<lambda>m. VInt (int (scored m))),
      evaluation = (\<lambda>m output measurement.
        (Inr [(''error'', VNone)], m\<lparr>scored := Suc (scored m)\<rparr>))\<rparr>"

definition demo_conf :: "entry list" where
  "demo_conf = [Setting ''bootstrap_servers'' (VStr ''localhost:9092''), Sensors [''temp''],
     PredictionHorizons [24]]"

definition no_args :: args where
  "no_args = \<lparr>arg_fit = False, arg_save = False, arg_load = False, arg_predict = False,
     arg_watchdog = False\<rparr>"

text \<open>
  Inputs to run the program on: the state that initialisation from \<open>demo_conf\<close> leaves,
  a well-formed record for sensor \<open>temp\<close> and horizon 24 with the output record it
  leads to, an unparsable payload followed by that record, a payload that calls
  \<open>exit\<close> followed by that record, and two more configurations.
\<close>

definition demo_state :: "demo state" where
  "demo_state = snd (init_phase (demo_model []) (read_conf demo_conf) initial_state)"

definition demo_record :: message where
  "demo_record = Message ''features_temp_24h''
     (Source (Display (DictDisplay
        [(Lit (VStr ''timestamp''), Lit (VInt 1700000000)),
         (Lit (VStr ''ftr_vector''), ListDisplay [Lit (VFloat 20), Lit (VFloat 19.5)])])))"

definition demo_model0 :: demo where
  "demo_model0 = \<lparr>demo_sensor = ''temp'', demo_horizon = 24, fitted = False, scored = 0\<rparr>"

definition demo_output :: "(string \<times> pyval) list" where
  "demo_output = [(''stampm'', VInt 1700000000), (''value'', VFloat 21.5), (''sensor_id'', VStr ''temp''),
     (''horizon'', VInt 24), (''predictability'', VInt 0), (''error'', VNone)]"

definition demo_inbound :: "arrival list" where
  "demo_inbound =
     [Yields (Message ''features_temp_24h'' Unparsable) (SendReturns (CompletesAfter 1 None)),
      Yields demo_record (SendReturns (CompletesAfter 1 None))]"


definition two_horizons_conf :: "entry list" where
  "two_horizons_conf = [Setting ''bootstrap_servers'' (VStr ''localhost:9092''), Sensors [''temp''],
     PredictionHorizons [12, 24]]"

definition days_conf :: "entry list" where
  "days_conf = [TimeOffset ''d'', Sensors [''temp''], PredictionHorizons [24]]"

section \<open>Tame inputs\<close>



fun is_consumer_error :: "line \<Rightarrow> bool" where
  "is_consumer_error (ConsumerError e) = True"
| "is_consumer_error l = False"

definition consumer_errors :: "'m state \<Rightarrow> nat" where
  "consumer_errors st = length (filter is_consumer_error (stdout st))"

section \<open>What initialisation builds\<close>

text \<open>
  The inner dict that the passes over the horizons \<open>H\<close> leave for a sensor, starting
  from \<open>d\<close>, and the registry that the passes over the sensors \<open>S\<close> leave.
\<close>

definition built :: "'m predictive_model \<Rightarrow> settings \<Rightarrow> string \<Rightarrow> int list \<Rightarrow> (int \<rightharpoonup> 'm) \<Rightarrow> (int \<rightharpoonup> 'm)" where
  "built pm cfg s H d =
     (\<lambda>h. if h \<in> set H then (case construct pm s h (kwargs cfg) of Inl e \<Rightarrow> None | Inr m \<Rightarrow> Some m)
          else d h)"

definition registry_of ::
  "'m predictive_model \<Rightarrow> settings \<Rightarrow> string list \<Rightarrow> int list \<Rightarrow> (string \<rightharpoonup> (int \<rightharpoonup> 'm)) \<Rightarrow> (string \<rightharpoonup> (int \<rightharpoonup> 'm))" where
  "registry_of pm cfg S H reg =
     (\<lambda>s. if s \<in> set S then Some (built pm cfg s H Map.empty) else reg s)"

section \<open>Splitting, digits and \<open>int\<close>\<close>

lemma py_split_not_Nil [simp]: "py_split sep s \<noteq> []"
  by (induction s) auto

lemma py_split_append_sep:
  "py_split sep (xs @ sep # ys) = py_split sep xs @ py_split sep ys"
  by (induction xs) auto

lemma py_split_no_sep: "sep \<notin> set ys \<Longrightarrow> py_split sep ys = [ys]"
  by (induction ys) auto

lemma digit_char_is_digit: "d < 10 \<Longrightarrow> is_digit (digit_char d)"
  by (simp add: is_digit_def digit_char_def)

lemma digit_val_digit_char: "d < 10 \<Longrightarrow> digit_val (digit_char d) = d"
  by (simp add: digit_val_def digit_char_def)

lemma digits_all_digit: "list_all is_digit (digits n)"
proof (induction n rule: digits.induct)
  case (1 n)
  show ?case
  proof (cases "n < 10")
    case True
    then show ?thesis by (subst digits.simps) (simp add: digit_char_is_digit)
  next
    case False
    with 1 show ?thesis by (subst digits.simps) (simp add: digit_char_is_digit)
  qed
qed

lemma digits_not_Nil: "digits n \<noteq> []"
  by (subst digits.simps) simp

lemma digits_value_digits: "digits_value (digits n) = n"
proof (induction n rule: digits.induct)
  case (1 n)
  show ?case
  proof (cases "n < 10")
    case True
    then show ?thesis
      by (subst digits.simps) (simp add: digits_value_def digit_char_is_digit digit_val_digit_char)
  next
    case False
    have f: "filter is_digit (digits (n div 10)) = digits (n div 10)"
      using digits_all_digit [of "n div 10"] by (simp add: list_all_iff)
    from False 1 have "digits_value (digits (n div 10)) = n div 10" by simp
    with False show ?thesis
      by (subst digits.simps) 
         (simp add: digits_value_def digit_char_is_digit digit_val_digit_char f)
  qed
qed

lemma is_digit_not_space: "is_digit c \<Longrightarrow> \<not> is_space c"
  by (auto simp: is_digit_def is_space_def)

lemma py_strip_id: "s \<noteq> [] \<Longrightarrow> \<not> is_space (hd s) \<Longrightarrow> \<not> is_space (last s) \<Longrightarrow> py_strip s = s"
proof -
  assume s: "s \<noteq> []" and h: "\<not> is_space (hd s)" and l: "\<not> is_space (last s)"
  from s h have a: "dropWhile is_space s = s" by (cases s) auto
  from s l have b: "dropWhile is_space (rev s) = rev s" by (cases s rule: rev_cases) auto
  show ?thesis by (simp add: py_strip_def a b)
qed

lemma no_double_underscore_digits:
  "list_all is_digit ds \<Longrightarrow> no_double_underscore ds"
  by (induction ds rule: no_double_underscore.induct) (auto simp: is_digit_def)

lemma hd_digits: "is_digit (hd (digits n))"
  using digits_all_digit [of n] digits_not_Nil [of n] by (cases "digits n") auto

lemma last_digits: "is_digit (last (digits n))"
  using digits_all_digit [of n] digits_not_Nil [of n]
  by (cases "digits n" rule: rev_cases) auto

lemma int_body_ok_digits: "int_body_ok (digits n)"
  using digits_all_digit [of n]
  by (auto simp: int_body_ok_def digits_not_Nil hd_digits last_digits
      no_double_underscore_digits list_all_iff)

lemma parse_nat_digits: "parse_nat (digits n) = Inr n"
  by (simp add: parse_nat_def int_body_ok_digits digits_value_digits)

lemma digit_not_sign: "is_digit c \<Longrightarrow> c \<noteq> CHR ''-'' \<and> c \<noteq> CHR ''+''"
  by (auto simp: is_digit_def)

lemma py_int_py_str_int: "py_int (py_str_int h) = Inr h"
proof (cases "h < 0")
  case True
  have "py_strip (CHR ''-'' # digits (nat (- h))) = CHR ''-'' # digits (nat (- h))"
    using last_digits [of "nat (- h)"] digits_not_Nil [of "nat (- h)"]
    by (intro py_strip_id) (auto simp: is_space_def dest: is_digit_not_space)
  with True show ?thesis
    by (simp add: py_int_def py_str_int_def parse_nat_digits)
next
  case False
  obtain c r where cr: "digits (nat h) = c # r"
    using digits_not_Nil [of "nat h"] by (cases "digits (nat h)") auto
  have c: "is_digit c" using hd_digits [of "nat h"] cr by simp
  have "py_strip (digits (nat h)) = digits (nat h)"
    using last_digits [of "nat h"] hd_digits [of "nat h"] digits_not_Nil [of "nat h"]
    by (intro py_strip_id) (auto dest: is_digit_not_space)
  with False cr c show ?thesis
    using parse_nat_digits [of "nat h"]
    by (simp add: py_int_def py_str_int_def digit_not_sign)
qed

lemma underscore_not_in_py_str_int: "CHR ''_'' \<notin> set (py_str_int h)"
  using digits_all_digit [of "nat h"]  digits_all_digit [of "nat (- h)"]
  by (auto simp: py_str_int_def list_all_iff is_digit_def)

lemma py_index_last: "py_index (xs @ [x]) (- 1) = Inr x"
  by (simp add: py_index_def)

lemma py_index_before_last: "py_index (xs @ [y, x]) (- 2) = Inr y"
  by (simp add: py_index_def nth_append)

lemma py_slice_to_suffix: "u \<noteq> [] \<Longrightarrow> py_slice_to (d @ u) (- int (length u)) = d"
  by (simp add: py_slice_to_def)

lemma split_topic_name:
  assumes "CHR ''_'' \<notin> set u"
  shows "py_split CHR ''_'' (topic_name s h u)
         = [''features''] @ butlast (py_split CHR ''_'' s) @ [last (py_split CHR ''_'' s), py_str_int h @ u]"
proof -
  have "topic_name s h u = (''features'' @ CHR ''_'' # s) @ CHR ''_'' # (py_str_int h @ u)"
    by (simp add: topic_name_def)
  then have "py_split CHR ''_'' (topic_name s h u)
      = py_split CHR ''_'' (''features'' @ CHR ''_'' # s) @ py_split CHR ''_'' (py_str_int h @ u)"
    by (simp only: py_split_append_sep)
  then have "py_split CHR ''_'' (topic_name s h u)
      = py_split CHR ''_'' ''features'' @ py_split CHR ''_'' s @ py_split CHR ''_'' (py_str_int h @ u)"
    by (simp only: py_split_append_sep append_assoc)
  moreover have "py_split CHR ''_'' (py_str_int h @ u) = [py_str_int h @ u]"
    using assms underscore_not_in_py_str_int by (intro py_split_no_sep) simp
  moreover have "py_split CHR ''_'' ''features'' = [''features'']" by simp
  moreover have "py_split CHR ''_'' s = butlast (py_split CHR ''_'' s) @ [last (py_split CHR ''_'' s)]"
    by simp
  ultimately show ?thesis by simp
qed

lemma resolve_topic_name:
  assumes "u \<noteq> []" "CHR ''_'' \<notin> set u"
  shows "resolve_topic (topic_name s h u) u = Inr (last (py_split CHR ''_'' s), h)"
proof -
  define pre where "pre = [''features''] @ butlast (py_split CHR ''_'' s)"
  define y where "y = last (py_split CHR ''_'' s)"
  define x where "x = py_str_int h @ u"
  have sp: "py_split CHR ''_'' (topic_name s h u) = pre @ [y, x]"
    using split_topic_name [OF assms(2)] by (simp add: pre_def y_def x_def)
  have 1: "py_index (pre @ [y, x]) (- 1) = Inr x"
    using py_index_last [of "pre @ [y]" x] by simp
  have 2: "py_index (pre @ [y, x]) (- 2) = Inr y"
    by (rule py_index_before_last)
  have 3: "py_int (py_slice_to x (- int (length u))) = Inr h"
    by (simp add: x_def py_slice_to_suffix [OF assms(1)] py_int_py_str_int)
  have "resolve_topic (topic_name s h u) u = Inr (y, h)"
    unfolding resolve_topic_def sp by (simp add: 1 2 3)
  then show ?thesis by (simp add: y_def)
qed

section \<open>The key of a topic\<close>

text \<open>
  Claim C2, as amended. For every sensor name without an underscore, every integer
  horizon and every unit code that is not empty and has no underscore, the key read
  from the topic \<open>features_<sensor>_<horizon><unit>\<close> with that unit is the sensor and
  the horizon: reading the key is a left inverse of forming the topic.
\<close>

theorem resolve_topic_roundtrip:
  assumes "CHR ''_'' \<notin> set s" and "u \<noteq> []" and "CHR ''_'' \<notin> set u"
  shows "resolve_topic (topic_name s h u) u = Inr (s, h)"
  using resolve_topic_name [OF assms(2,3)] py_split_no_sep [OF assms(1)] by simp

theorem resolve_topic_roundtrip_witness:
  "resolve_topic (topic_name ''temp'' 24 ''h'') ''h'' = Inr (''temp'', 24)"
  using resolve_topic_roundtrip [of "''temp''" "''h''" 24] by simp

text \<open>
  Claim C2 as stated fails for a sensor name with an underscore: of \<open>a_b\<close> only the
  part after the underscore comes back. It fails as well for a unit that is empty or
  holds an underscore: no horizon is read then.
\<close>

theorem resolve_topic_underscore_counterexample:
  "resolve_topic (topic_name ''a_b'' 1 ''h'') ''h'' = Inr (''b'', 1)
   \<and> resolve_topic (topic_name ''a_b'' 1 ''h'') ''h'' \<noteq> Inr (''a_b'', 1)
   \<and> resolve_topic (topic_name ''temp'' 24 []) [] = Inl ValueError
   \<and> resolve_topic (topic_name ''temp'' 24 ''_h'') ''_h'' = Inl ValueError"
proof -
  have "resolve_topic (topic_name ''temp'' 24 []) [] = Inl ValueError" by code_simp
  moreover have "resolve_topic (topic_name ''temp'' 24 ''_h'') ''_h'' = Inl ValueError" by code_simp
  ultimately show ?thesis
    using resolve_topic_name [of "''h''" "''a_b''" 1] by simp
qed

section \<open>Statements in sequence\<close>

lemma andthen_pure_Inr [simp]: "andthen (pure (Inr x)) g st = g x st"
  by (simp add: andthen_def pure_def)

lemma andthen_pure_Inl [simp]: "andthen (pure (Inl e)) g st = (Inl e, st)"
  by (simp add: andthen_def pure_def)

lemma andthen_ret [simp]: "andthen (ret x) g st = g x st"
  by (simp add: andthen_def ret_def)

lemma andthen_raise [simp]: "andthen (raise e) g st = (Inl e, st)"
  by (simp add: andthen_def raise_def)

lemma andthen_print_line [simp]:
  "andthen (print_line l) g st = g () (st\<lparr>stdout := stdout st @ [l]\<rparr>)"
  by (simp add: andthen_def print_line_def)

lemma only_if_simps [simp]: "only_if True f = f" "only_if False f st = (Inr (), st)"
  by (auto simp: only_if_def fun_eq_iff)

lemma for_each_Cons_Inr: "body x st = (Inr u, st1) \<Longrightarrow> for_each (x # xs) body st = for_each xs body st1"
  by (simp add: andthen_def)

lemma for_each_Cons_Inl: "body x st = (Inl e, st1) \<Longrightarrow> for_each (x # xs) body st = (Inl e, st1)"
  by (simp add: andthen_def)

lemma for_each_Nil [simp]: "for_each [] body st = (Inr (), st)"
  by (simp add: ret_def)

lemma for_each_append:
  "for_each xs body st = (Inr (), st0) \<Longrightarrow> for_each (xs @ ys) body st = for_each ys body st0"
  by (induction xs arbitrary: st)
     (auto simp: for_each.simps andthen_def ret_def split: prod.splits sum.splits)

declare for_each.simps [simp del]

section \<open>Decoding a payload\<close>

lemma build_dict_error: "build_dict d kvs = Inl e \<Longrightarrow> e = TypeError"
  by (induction d kvs rule: build_dict.induct) (auto split: if_splits)

lemma display_raises:
  "\<forall>x. py_display d = Inl x \<longrightarrow> x = TypeError"
  "\<forall>x. py_displays ds = Inl x \<longrightarrow> x = TypeError"
  "\<forall>x. py_items items = Inl x \<longrightarrow> x = TypeError"
proof (induction d and ds and items rule: py_display_py_displays_py_items.induct)
  case (3 items)
  then show ?case
    by (auto split: sum.splits dest: build_dict_error simp: map_sum_def)
qed (auto split: sum.splits simp: map_sum_def)

lemma data_eval:
  "is_data e \<Longrightarrow> snd (py_eval e out) = out \<and> (\<forall>x. fst (py_eval e out) = Inl x \<longrightarrow> x = TypeError)"
  using display_raises(1) by (cases e) auto

text \<open>
  Claim C1, as amended. For every payload that is a display of data (constants, lists
  and dicts, no call in it) or that does not parse, decoding has no effect on the
  process: it leaves what is printed as it was, and it returns a value or raises
  \<open>SyntaxError\<close> (the payload does not parse) or \<open>TypeError\<close> (a key of a dict display
  is not hashable), nothing else.
\<close>

theorem decode_data_only:
  assumes "payload_is_data p"
  shows "snd (decode p out) = out
     \<and> (\<forall>e. fst (decode p out) = Inl e \<longrightarrow> e = SyntaxError \<or> e = TypeError)"
  using assms data_eval [of _ out]
  by (cases p) (auto simp: decode_def)

theorem decode_data_only_witness:
  "payload_is_data (Source (Display (DictDisplay [(Lit (VStr ''timestamp''), Lit (VInt 7))])))
   \<and> decode (Source (Display (DictDisplay [(Lit (VStr ''timestamp''), Lit (VInt 7))]))) [Banner ''x'']
       = (Inr (VDict [(VStr ''timestamp'', VInt 7)]), [Banner ''x''])"
  using decode_data_only
    [of "Source (Display (DictDisplay [(Lit (VStr ''timestamp''), Lit (VInt 7))]))" "[Banner ''x'']"]
  by (simp add: decode_def)

text \<open>
  Claim C1 as stated fails: line 218 evaluates the payload, and a payload that is a call
  is run. The payload \<open>print('run')\<close> prints, the payload \<open>exit()\<close> raises
  \<open>SystemExit\<close>.
\<close>

theorem decode_runs_code_counterexample:
  "decode (Source (Call Print [Display (Lit (VStr ''run''))])) [] = (Inr VNone, [Printed [VStr ''run'']])
   \<and> decode (Source (Call Exit [])) [] = (Inl SystemExit, [])"
  by (simp add: decode_def)

section \<open>The watchdog\<close>

lemma watchdog_phase_raises: "watchdog_phase conf st = (Inl TypeError, st)"
  by (simp add: watchdog_phase_def py_getattr_def dict_methods_def)

text \<open>
  Claim C10. With the watchdog flag set, the guard of line 196 raises \<open>TypeError\<close>
  whatever the configuration holds, so it is no test for the key: neither branch runs,
  and the program behaves as it does without the watchdog and prediction flags and then
  raises \<open>TypeError\<close>.
\<close>

theorem watchdog_guard_raises:
  assumes "arg_watchdog a"
  shows "watchdog_phase conf st = (Inl TypeError, st)
     \<and> main pm a conf inbound
         = andthen (main_from pm (a\<lparr>arg_watchdog := False, arg_predict := False\<rparr>) conf inbound)
             (\<lambda>_. raise TypeError) initial_state"
proof -
  have w: "only_if (arg_watchdog a) (watchdog_phase conf) = (\<lambda>st. (Inl TypeError, st))"
    using assms by (simp add: fun_eq_iff watchdog_phase_raises)
  have "main_from pm a conf inbound s0
      = andthen (main_from pm (a\<lparr>arg_watchdog := False, arg_predict := False\<rparr>) conf inbound)
             (\<lambda>_. raise TypeError) s0" for s0
    unfolding main_from_def Let_def w
    by (auto simp: andthen_def raise_def print_line_def split: prod.splits sum.splits)
  then show ?thesis by (simp add: main_def watchdog_phase_raises)
qed

theorem watchdog_guard_raises_witness:
  "arg_watchdog (no_args\<lparr>arg_watchdog := True, arg_predict := True\<rparr>)
   \<and> fst (main (demo_model []) (no_args\<lparr>arg_watchdog := True, arg_predict := True\<rparr>)
          (Setting ''watchdog_path'' (VStr ''/ping'') # demo_conf) []) = Inl TypeError
   \<and> stdout (snd (main (demo_model []) (no_args\<lparr>arg_watchdog := True, arg_predict := True\<rparr>)
          (Setting ''watchdog_path'' (VStr ''/ping'') # demo_conf) []))
       = [Banner ''=== Init phase ==='', Initializing ''temp'' 24 ''h'']"
proof -
  have w: "arg_watchdog (no_args\<lparr>arg_watchdog := True, arg_predict := True\<rparr>)"
    by (simp add: no_args_def)
  have e: "main_from (demo_model [])
         (no_args\<lparr>arg_watchdog := False, arg_predict := False\<rparr>)
         (Setting ''watchdog_path'' (VStr ''/ping'') # demo_conf) [] initial_state
       = (Inr (), snd (main (demo_model []) no_args (Setting ''watchdog_path'' (VStr ''/ping'') # demo_conf) []))"
    by (simp add: prod_eq_iff main_def no_args_def) code_simp
  have s: "stdout (snd (main (demo_model []) no_args (Setting ''watchdog_path'' (VStr ''/ping'') # demo_conf) []))
       = [Banner ''=== Init phase ==='', Initializing ''temp'' 24 ''h'']"
    by code_simp
  from watchdog_guard_raises [OF w, of "Setting ''watchdog_path'' (VStr ''/ping'') # demo_conf"
      "initial_state :: demo state" "demo_model []" "[]"]
  have "main (demo_model []) (no_args\<lparr>arg_watchdog := True, arg_predict := True\<rparr>)
          (Setting ''watchdog_path'' (VStr ''/ping'') # demo_conf) []
      = (Inl TypeError, snd (main (demo_model []) no_args (Setting ''watchdog_path'' (VStr ''/ping'') # demo_conf) []))"
    by (simp add: andthen_def e raise_def)
  with w s show ?thesis by simp
qed

section \<open>The registry after initialisation\<close>

lemma init_model_eq:
  "init_model pm cfg s h st =
     (case construct pm s h (kwargs cfg) of
        Inl e \<Rightarrow> (Inl e, st)
      | Inr m \<Rightarrow>
          (case models st s of
             None \<Rightarrow> (Inl KeyError, st)
           | Some d \<Rightarrow>
               (Inr (), st\<lparr>models := (models st)(s \<mapsto> d(h \<mapsto> m)),
                          stdout := stdout st @ [Initializing s h (time_offset cfg)]\<rparr>)))"
  by (simp add: init_model_def store_model_def set_model_def andthen_def pure_def print_line_def
      split: sum.splits option.splits)

lemma init_horizons_constructed:
  "for_each H (init_model pm cfg s) st = (Inr (), st') \<Longrightarrow>
     \<forall>h\<in>set H. \<exists>m. construct pm s h (kwargs cfg) = Inr m"
proof (induction H arbitrary: st)
  case Nil
  then show ?case by simp
next
  case (Cons h H)
  show ?case
  proof (cases "init_model pm cfg s h st")
    case (Pair r st1)
    show ?thesis
    proof (cases r)
      case (Inl e)
      with Pair Cons.prems show ?thesis by (simp add: for_each_Cons_Inl)
    next
      case (Inr u)
      with Pair Cons.prems have "for_each H (init_model pm cfg s) st1 = (Inr (), st')"
        by (simp add: for_each_Cons_Inr)
      then have "\<forall>h\<in>set H. \<exists>m. construct pm s h (kwargs cfg) = Inr m" by (rule Cons.IH)
      moreover from Pair Inr have "\<exists>m. construct pm s h (kwargs cfg) = Inr m"
        by (auto simp: init_model_eq split: sum.splits)
      ultimately show ?thesis by simp
    qed
  qed
qed

lemma init_model_step:
  assumes "construct pm s h (kwargs cfg) = Inr m" and "models st s = Some d"
  shows "\<exists>st'. init_model pm cfg s h st = (Inr (), st')
     \<and> models st' = (models st)(s \<mapsto> d(h \<mapsto> m))
     \<and> stdout st' = stdout st @ [Initializing s h (time_offset cfg)]
     \<and> sent st' = sent st \<and> waited st' = waited st"
  using assms by (simp add: init_model_eq)

lemma init_horizons_eq:
  assumes "\<forall>h\<in>set H. \<exists>m. construct pm s h (kwargs cfg) = Inr m" and "models st s = Some d"
  shows "\<exists>st'. for_each H (init_model pm cfg s) st = (Inr (), st')
     \<and> models st' = (models st)(s \<mapsto> built pm cfg s H d)
     \<and> stdout st' = stdout st @ map (\<lambda>h. Initializing s h (time_offset cfg)) H
     \<and> sent st' = sent st \<and> waited st' = waited st"
  using assms
proof (induction H arbitrary: st d)
  case Nil
  then have "(models st)(s \<mapsto> built pm cfg s [] d) = models st"
    by (auto simp: built_def fun_eq_iff)
  then show ?case by simp
next
  case (Cons h H)
  from Cons.prems obtain m where m: "construct pm s h (kwargs cfg) = Inr m" by auto
  from init_model_step [OF m Cons.prems(2)] obtain st1 where
    step: "init_model pm cfg s h st = (Inr (), st1)"
    and st1: "models st1 = (models st)(s \<mapsto> d(h \<mapsto> m))"
      "stdout st1 = stdout st @ [Initializing s h (time_offset cfg)]"
      "sent st1 = sent st" "waited st1 = waited st"
    by blast
  have "\<exists>st'. for_each H (init_model pm cfg s) st1 = (Inr (), st')
     \<and> models st' = (models st1)(s \<mapsto> built pm cfg s H (d(h \<mapsto> m)))
     \<and> stdout st' = stdout st1 @ map (\<lambda>h. Initializing s h (time_offset cfg)) H
     \<and> sent st' = sent st1 \<and> waited st' = waited st1"
    using Cons.prems by (intro Cons.IH) (auto simp: st1)
  then obtain st' where
    rest: "for_each H (init_model pm cfg s) st1 = (Inr (), st')"
    and st': "models st' = (models st1)(s \<mapsto> built pm cfg s H (d(h \<mapsto> m)))"
      "stdout st' = stdout st1 @ map (\<lambda>h. Initializing s h (time_offset cfg)) H"
      "sent st' = sent st1" "waited st' = waited st1"
    by blast
  have b: "built pm cfg s H (d(h \<mapsto> m)) = built pm cfg s (h # H) d"
    using m by (auto simp: built_def fun_eq_iff)
  have "for_each (h # H) (init_model pm cfg s) st = for_each H (init_model pm cfg s) st1"
    using step by (rule for_each_Cons_Inr)
  with rest have c1: "for_each (h # H) (init_model pm cfg s) st = (Inr (), st')" by simp
  have c2: "models st' = (models st)(s \<mapsto> built pm cfg s (h # H) d)"
    by (simp add: st' st1 b)
  have c3: "stdout st' = stdout st @ map (\<lambda>h. Initializing s h (time_offset cfg)) (h # H)"
    by (simp add: st' st1)
  have c4: "sent st' = sent st" "waited st' = waited st"
    by (simp_all add: st' st1)
  from c1 c2 c3 c4 show ?case by blast
qed

lemma init_sensor_eq:
  assumes "horizons cfg = Some H" and "\<forall>h\<in>set H. \<exists>m. construct pm s h (kwargs cfg) = Inr m"
  shows "\<exists>st'. init_sensor pm cfg s st = (Inr (), st')
     \<and> models st' = (models st)(s \<mapsto> built pm cfg s H Map.empty)
     \<and> stdout st' = stdout st @ map (\<lambda>h. Initializing s h (time_offset cfg)) H
     \<and> sent st' = sent st \<and> waited st' = waited st"
proof -
  define st0 where "st0 = st\<lparr>models := (models st)(s \<mapsto> Map.empty)\<rparr>"
  have "models st0 s = Some Map.empty" by (simp add: st0_def)
  from init_horizons_eq [OF assms(2) this] obtain st' where
    "for_each H (init_model pm cfg s) st0 = (Inr (), st')"
    "models st' = (models st0)(s \<mapsto> built pm cfg s H Map.empty)"
    "stdout st' = stdout st0 @ map (\<lambda>h. Initializing s h (time_offset cfg)) H"
    "sent st' = sent st0" "waited st' = waited st0"
    by blast
  then show ?thesis
    by (simp add: init_sensor_def andthen_def for_in_def assms(1) st0_def)
qed

lemma init_sensor_constructed:
  assumes "horizons cfg = Some H" and "init_sensor pm cfg s st = (Inr (), st')"
  shows "\<forall>h\<in>set H. \<exists>m. construct pm s h (kwargs cfg) = Inr m"
  using assms init_horizons_constructed [of H pm cfg s "st\<lparr>models := (models st)(s \<mapsto> Map.empty)\<rparr>" st']
  by (simp add: init_sensor_def andthen_def for_in_def)

lemma init_sensors_constructed:
  assumes "horizons cfg = Some H"
  shows "for_each S (init_sensor pm cfg) st = (Inr (), st') \<Longrightarrow>
     \<forall>s\<in>set S. \<forall>h\<in>set H. \<exists>m. construct pm s h (kwargs cfg) = Inr m"
proof (induction S arbitrary: st)
  case Nil
  then show ?case by simp
next
  case (Cons s S)
  show ?case
  proof (cases "init_sensor pm cfg s st")
    case (Pair r st1)
    show ?thesis
    proof (cases r)
      case (Inl e)
      with Pair Cons.prems show ?thesis by (simp add: for_each_Cons_Inl)
    next
      case (Inr u)
      with Pair Cons.prems have "for_each S (init_sensor pm cfg) st1 = (Inr (), st')"
        by (simp add: for_each_Cons_Inr)
      then have "\<forall>s\<in>set S. \<forall>h\<in>set H. \<exists>m. construct pm s h (kwargs cfg) = Inr m"
        by (rule Cons.IH)
      moreover from Pair Inr have "\<forall>h\<in>set H. \<exists>m. construct pm s h (kwargs cfg) = Inr m"
        using init_sensor_constructed [OF assms, of pm s st st1] by simp
      ultimately show ?thesis by simp
    qed
  qed
qed

lemma init_sensors_eq:
  assumes "horizons cfg = Some H"
    and "\<forall>s\<in>set S. \<forall>h\<in>set H. \<exists>m. construct pm s h (kwargs cfg) = Inr m"
  shows "\<exists>st'. for_each S (init_sensor pm cfg) st = (Inr (), st')
     \<and> models st' = registry_of pm cfg S H (models st)
     \<and> stdout st' = stdout st
          @ concat (map (\<lambda>s. map (\<lambda>h. Initializing s h (time_offset cfg)) H) S)
     \<and> sent st' = sent st \<and> waited st' = waited st"
  using assms(2)
proof (induction S arbitrary: st)
  case Nil
  have "registry_of pm cfg [] H (models st) = models st"
    by (simp add: registry_of_def)
  then show ?case by simp
next
  case (Cons s S)
  from Cons.prems have "\<forall>h\<in>set H. \<exists>m. construct pm s h (kwargs cfg) = Inr m" by simp
  from init_sensor_eq [OF assms(1) this] obtain st1 where
    step: "init_sensor pm cfg s st = (Inr (), st1)"
    and st1: "models st1 = (models st)(s \<mapsto> built pm cfg s H Map.empty)"
      "stdout st1 = stdout st @ map (\<lambda>h. Initializing s h (time_offset cfg)) H"
      "sent st1 = sent st" "waited st1 = waited st"
    by blast
  have "\<exists>st'. for_each S (init_sensor pm cfg) st1 = (Inr (), st')
     \<and> models st' = registry_of pm cfg S H (models st1)
     \<and> stdout st' = stdout st1
          @ concat (map (\<lambda>s. map (\<lambda>h. Initializing s h (time_offset cfg)) H) S)
     \<and> sent st' = sent st1 \<and> waited st' = waited st1"
    using Cons.prems by (intro Cons.IH) simp
  then obtain st' where
    rest: "for_each S (init_sensor pm cfg) st1 = (Inr (), st')"
    and st': "models st' = registry_of pm cfg S H (models st1)"
      "stdout st' = stdout st1
          @ concat (map (\<lambda>s. map (\<lambda>h. Initializing s h (time_offset cfg)) H) S)"
      "sent st' = sent st1" "waited st' = waited st1"
    by blast
  have r: "registry_of pm cfg S H (models st1) = registry_of pm cfg (s # S) H (models st)"
    by (auto simp: registry_of_def st1 fun_eq_iff)
  have "for_each (s # S) (init_sensor pm cfg) st = for_each S (init_sensor pm cfg) st1"
    using step by (rule for_each_Cons_Inr)
  with rest have c1: "for_each (s # S) (init_sensor pm cfg) st = (Inr (), st')" by simp
  have c2: "models st' = registry_of pm cfg (s # S) H (models st)"
    by (simp add: st' r)
  have c3: "stdout st' = stdout st
          @ concat (map (\<lambda>s. map (\<lambda>h. Initializing s h (time_offset cfg)) H) (s # S))"
    by (simp add: st' st1)
  have c4: "sent st' = sent st" "waited st' = waited st"
    by (simp_all add: st' st1)
  from c1 c2 c3 c4 show ?case by blast
qed

lemma get_model_registry_of:
  "get_model (registry_of pm cfg S H Map.empty) s h =
     (if s \<in> set S \<and> h \<in> set H
      then (case construct pm s h (kwargs cfg) of Inl e \<Rightarrow> Inl KeyError | Inr m \<Rightarrow> Inr m)
      else Inl KeyError)"
  by (simp add: get_model_def registry_of_def built_def split: sum.splits)

text \<open>
  Claim C3. When initialisation from a configuration with sensors \<open>S\<close> and horizons
  \<open>H\<close> has run through, the registry holds for each pair of a sensor of \<open>S\<close> and a
  horizon of \<open>H\<close> one model, the one constructed for that pair, and a lookup of any
  other pair raises \<open>KeyError\<close> and leaves the state, the registry with it, as it was.
\<close>

theorem registry_after_init:
  assumes "sensors cfg = Some S" and "horizons cfg = Some H"
    and "models st = Map.empty" and "init_phase pm cfg st = (Inr (), st')"
  shows "(s \<in> set S \<and> h \<in> set H \<longrightarrow>
           (\<exists>m. get_model (models st') s h = Inr m \<and> construct pm s h (kwargs cfg) = Inr m))
     \<and> (\<not> (s \<in> set S \<and> h \<in> set H) \<longrightarrow> get_model (models st') s h = Inl KeyError)
     \<and> lookup_model s h st' = (get_model (models st') s h, st')"
proof -
  have loop: "for_each S (init_sensor pm cfg) st = (Inr (), st')"
    using assms(1,4) by (simp add: init_phase_def for_in_def)
  have ok: "\<forall>s\<in>set S. \<forall>h\<in>set H. \<exists>m. construct pm s h (kwargs cfg) = Inr m"
    using init_sensors_constructed [OF assms(2) loop] .
  from init_sensors_eq [OF assms(2) ok, of st] loop
  have "models st' = registry_of pm cfg S H Map.empty"
    by (auto simp: assms(3))
  then have g: "get_model (models st') s h =
     (if s \<in> set S \<and> h \<in> set H
      then (case construct pm s h (kwargs cfg) of Inl e \<Rightarrow> Inl KeyError | Inr m \<Rightarrow> Inr m)
      else Inl KeyError)"
    by (simp add: get_model_registry_of)
  show ?thesis
  proof (intro conjI impI)
    assume in_S_H: "s \<in> set S \<and> h \<in> set H"
    with ok obtain m where "construct pm s h (kwargs cfg) = Inr m" by blast
    with in_S_H show "\<exists>m. get_model (models st') s h = Inr m \<and> construct pm s h (kwargs cfg) = Inr m"
      by (simp add: g)
  next
    assume "\<not> (s \<in> set S \<and> h \<in> set H)"
    then show "get_model (models st') s h = Inl KeyError" by (auto simp: g)
  next
    show "lookup_model s h st' = (get_model (models st') s h, st')"
      by (simp add: lookup_model_def)
  qed
qed

theorem registry_after_init_witness:
  "get_model (models (snd (init_phase (demo_model []) (read_conf demo_conf) initial_state))) ''temp'' 24
     = Inr \<lparr>demo_sensor = ''temp'', demo_horizon = 24, fitted = False, scored = 0\<rparr>
   \<and> get_model (models (snd (init_phase (demo_model []) (read_conf demo_conf) initial_state))) ''wind'' 24
     = Inl KeyError"
proof -
  define st' where "st' = snd (init_phase (demo_model []) (read_conf demo_conf) initial_state)"
  have 1: "sensors (read_conf demo_conf) = Some [''temp'']" by code_simp
  have 2: "horizons (read_conf demo_conf) = Some [24]" by code_simp
  have 3: "models (initial_state :: demo state) = Map.empty" by (simp add: initial_state_def)
  have "fst (init_phase (demo_model []) (read_conf demo_conf) initial_state) = Inr ()" by code_simp
  then have 4: "init_phase (demo_model []) (read_conf demo_conf) initial_state = (Inr (), st')"
    by (simp add: st'_def prod_eq_iff)
  have c: "construct (demo_model []) ''temp'' 24 (kwargs (read_conf demo_conf))
      = Inr \<lparr>demo_sensor = ''temp'', demo_horizon = 24, fitted = False, scored = 0\<rparr>"
    by (simp add: demo_model_def)
  from registry_after_init [OF 1 2 3 4, of "''temp''" 24] registry_after_init [OF 1 2 3 4, of "''wind''" 24] c
  show ?thesis by (auto simp: st'_def)
qed

text \<open>
  Claim C6, as amended. Initialisation raises \<open>TypeError\<close> when no \<open>sensors\<close> entry
  was read, and when no \<open>prediction_horizons\<close> entry was read and the list of sensors
  is not empty. With both lists read and every construction succeeding, it makes one
  pass, so one construction, per sensor and horizon of the lists (one per pair when no
  list repeats an element) and leaves each pair its model. An empty list of sensors or
  of horizons is accepted: initialisation then ends without an error, and the registry
  holds no model.
\<close>

theorem init_phase_cases:
  "(sensors cfg = None \<longrightarrow> init_phase pm cfg st = (Inl TypeError, st))
   \<and> (\<forall>s S. sensors cfg = Some (s # S) \<and> horizons cfg = None
         \<longrightarrow> fst (init_phase pm cfg st) = Inl TypeError)
   \<and> (\<forall>S H. sensors cfg = Some S \<and> horizons cfg = Some H
           \<and> (\<forall>s\<in>set S. \<forall>h\<in>set H. \<exists>m. construct pm s h (kwargs cfg) = Inr m)
         \<longrightarrow> (\<exists>st'. init_phase pm cfg st = (Inr (), st')
               \<and> stdout st' = stdout st
                    @ concat (map (\<lambda>s. map (\<lambda>h. Initializing s h (time_offset cfg)) H) S)
               \<and> models st' = registry_of pm cfg S H (models st)))
   \<and> (sensors cfg = Some [] \<longrightarrow> init_phase pm cfg st = (Inr (), st))
   \<and> (\<forall>S. sensors cfg = Some S \<and> horizons cfg = Some [] \<and> models st = Map.empty
         \<longrightarrow> (\<exists>st'. init_phase pm cfg st = (Inr (), st') \<and> stdout st' = stdout st
               \<and> (\<forall>s h. get_model (models st') s h = Inl KeyError)))"
proof (intro conjI allI impI)
  assume "sensors cfg = None"
  then show "init_phase pm cfg st = (Inl TypeError, st)"
    by (simp add: init_phase_def for_in_def raise_def)
next
  fix s S assume "sensors cfg = Some (s # S) \<and> horizons cfg = None"
  then show "fst (init_phase pm cfg st) = Inl TypeError"
    by (simp add: init_phase_def for_in_def for_each.simps init_sensor_def andthen_def raise_def)
next
  fix S H
  assume a: "sensors cfg = Some S \<and> horizons cfg = Some H
           \<and> (\<forall>s\<in>set S. \<forall>h\<in>set H. \<exists>m. construct pm s h (kwargs cfg) = Inr m)"
  then have h: "horizons cfg = Some H"
    and ok: "\<forall>s\<in>set S. \<forall>h\<in>set H. \<exists>m. construct pm s h (kwargs cfg) = Inr m" by auto
  from init_sensors_eq [OF h ok, of st] a
  show "\<exists>st'. init_phase pm cfg st = (Inr (), st')
               \<and> stdout st' = stdout st
                    @ concat (map (\<lambda>s. map (\<lambda>h. Initializing s h (time_offset cfg)) H) S)
               \<and> models st' = registry_of pm cfg S H (models st)"
    by (auto simp: init_phase_def for_in_def)
next
  assume "sensors cfg = Some []"
  then show "init_phase pm cfg st = (Inr (), st)"
    by (simp add: init_phase_def for_in_def)
next
  fix S
  assume a: "sensors cfg = Some S \<and> horizons cfg = Some [] \<and> models st = Map.empty"
  then have h: "horizons cfg = Some []" by simp
  have ok: "\<forall>s\<in>set S. \<forall>h\<in>set ([] :: int list). \<exists>m. construct pm s h (kwargs cfg) = Inr m" by simp
  from init_sensors_eq [OF h ok, of st] a
  show "\<exists>st'. init_phase pm cfg st = (Inr (), st') \<and> stdout st' = stdout st
               \<and> (\<forall>s h. get_model (models st') s h = Inl KeyError)"
    by (auto simp: init_phase_def for_in_def get_model_registry_of)
qed

theorem init_phase_cases_witness:
  "init_phase (demo_model []) (read_conf [Setting ''alpha'' (VInt 1)]) initial_state
     = (Inl TypeError, initial_state)
   \<and> fst (init_phase (demo_model []) (read_conf [Sensors [''temp'']]) initial_state) = Inl TypeError
   \<and> stdout (snd (init_phase (demo_model []) (read_conf demo_conf) initial_state))
       = [Initializing ''temp'' 24 ''h'']
   \<and> init_phase (demo_model []) (read_conf [Sensors []]) initial_state = (Inr (), initial_state)
   \<and> fst (init_phase (demo_model []) (read_conf [Sensors [''temp''], PredictionHorizons []])
        initial_state) = Inr ()"
proof -
  have 1: "sensors (read_conf [Setting ''alpha'' (VInt 1)]) = None" by code_simp
  have 2: "sensors (read_conf [Sensors [''temp'']]) = Some [''temp'']
      \<and> horizons (read_conf [Sensors [''temp'']]) = None" by code_simp
  have 3: "sensors (read_conf demo_conf) = Some [''temp''] \<and> horizons (read_conf demo_conf) = Some [24]
      \<and> (\<forall>s\<in>set [''temp'']. \<forall>h\<in>set [24].
            \<exists>m. construct (demo_model []) s h (kwargs (read_conf demo_conf)) = Inr m)"
    by (simp add: demo_model_def) code_simp
  have 4: "sensors (read_conf [Sensors []]) = Some []" by code_simp
  have 5: "sensors (read_conf [Sensors [''temp''], PredictionHorizons []]) = Some [''temp'']
      \<and> horizons (read_conf [Sensors [''temp''], PredictionHorizons []]) = Some []
      \<and> models (initial_state :: demo state) = Map.empty"
    by (simp add: initial_state_def) code_simp
  have t: "time_offset (read_conf demo_conf) = ''h''" by code_simp
  have i: "stdout (initial_state :: demo state) = []" by (simp add: initial_state_def)
  note c1 = init_phase_cases [of "read_conf [Setting ''alpha'' (VInt 1)]" "demo_model []" initial_state]
  note c2 = init_phase_cases [of "read_conf [Sensors [''temp'']]" "demo_model []" initial_state]
  note c3 = init_phase_cases [of "read_conf demo_conf" "demo_model []" initial_state]
  note c4 = init_phase_cases [of "read_conf [Sensors []]" "demo_model []" initial_state]
  note c5 = init_phase_cases [of "read_conf [Sensors [''temp''], PredictionHorizons []]" "demo_model []" initial_state]
  from c1 1 have r1: "init_phase (demo_model []) (read_conf [Setting ''alpha'' (VInt 1)]) initial_state
     = (Inl TypeError, initial_state)" by blast
  from c2 2 have r2: "fst (init_phase (demo_model []) (read_conf [Sensors [''temp'']]) initial_state) = Inl TypeError"
    by blast
  from c3 3 obtain st' where "init_phase (demo_model []) (read_conf demo_conf) initial_state = (Inr (), st')"
    "stdout st' = stdout (initial_state :: demo state)
        @ concat (map (\<lambda>s. map (\<lambda>h. Initializing s h (time_offset (read_conf demo_conf))) [24]) [''temp''])"
    by blast
  then have r3: "stdout (snd (init_phase (demo_model []) (read_conf demo_conf) initial_state))
       = [Initializing ''temp'' 24 ''h'']"
    by (simp add: t i)
  from c4 4 have r4: "init_phase (demo_model []) (read_conf [Sensors []]) initial_state = (Inr (), initial_state)"
    by blast
  from c5 5 obtain st'' where "init_phase (demo_model []) (read_conf [Sensors [''temp''], PredictionHorizons []])
        initial_state = (Inr (), st'')" by blast
  then have r5: "fst (init_phase (demo_model []) (read_conf [Sensors [''temp''], PredictionHorizons []])
        initial_state) = Inr ()" by simp
  from r1 r2 r3 r4 r5 show ?thesis by blast
qed

text \<open>
  Claim C6 as stated fails: with an empty list of sensors, or of horizons, \<open>main\<close>
  ends without any error and the registry holds no model.
\<close>

theorem init_empty_counterexample:
  "fst (main (demo_model []) no_args [Sensors [], PredictionHorizons [24]] []) = Inr ()
   \<and> get_model (models (snd (main (demo_model []) no_args [Sensors [], PredictionHorizons [24]] [])))
        ''temp'' 24 = Inl KeyError
   \<and> fst (main (demo_model []) no_args [Sensors [''temp''], PredictionHorizons []] []) = Inr ()
   \<and> get_model (models (snd (main (demo_model []) no_args [Sensors [''temp''], PredictionHorizons []] [])))
        ''temp'' 24 = Inl KeyError
   \<and> fst (main (demo_model []) no_args [Sensors []] []) = Inr ()"
  by code_simp

section \<open>The steps of a pass\<close>


lemma get_put_model_same:
  "get_model reg s h = Inr m \<Longrightarrow> get_model (put_model reg s h m') s h = Inr m'"
  by (auto simp: get_model_def put_model_def set_model_def split: option.splits)

lemma get_put_model_other:
  "(s', h') \<noteq> (s, h) \<Longrightarrow> get_model (put_model reg s h m') s' h' = get_model reg s' h'"
  by (auto simp: get_model_def put_model_def set_model_def split: option.splits)

lemma call_model_frame:
  "call_model s h method st = (r, st') \<Longrightarrow>
     stdout st' = stdout st \<and> sent st' = sent st \<and> waited st' = waited st"
  by (auto simp: call_model_def split: sum.splits prod.splits)


lemma eval_keeps_consumer_errors:
  "filter is_consumer_error (snd (py_eval e out)) = filter is_consumer_error out"
  "filter is_consumer_error (snd (py_eval_list es out)) = filter is_consumer_error out"
proof (induction e out and es out rule: py_eval_py_eval_list.induct)
  case (2 f args out)
  then show ?case by (cases f) (auto split: prod.splits sum.splits)
qed (auto split: prod.splits sum.splits)


lemma decode_keeps_consumer_errors:
  "filter is_consumer_error (snd (decode p out)) = filter is_consumer_error out"
  using eval_keeps_consumer_errors(1) by (cases p) (auto simp: decode_def)







lemma andthen_cases:
  assumes "andthen f g st = (r, st')"
  obtains (raised) e where "f st = (Inl e, st')" "r = Inl e"
  | (went_on) x st1 where "f st = (Inr x, st1)" "g x st1 = (r, st')"
  using assms by (auto simp: andthen_def split: prod.splits sum.splits)

lemma pure_eq: "pure r st = (r', st') \<longleftrightarrow> r = r' \<and> st' = st"
  by (auto simp: pure_def)

lemma eval_payload_frame:
  "eval_payload p st = (r, st') \<Longrightarrow>
     sent st' = sent st \<and> waited st' = waited st \<and> models st' = models st
     \<and> consumer_errors st' = consumer_errors st"
  using decode_keeps_consumer_errors [of p "stdout st"]
  by (auto simp: eval_payload_def consumer_errors_def split: prod.splits)


lemma call_model_frame':
  "call_model s h method st = (r, st') \<Longrightarrow>
     sent st' = sent st \<and> waited st' = waited st \<and> consumer_errors st' = consumer_errors st"
  by (auto simp: consumer_errors_def dest: call_model_frame)

lemma lookup_model_eq: "lookup_model s h st = (r, st') \<longleftrightarrow> get_model (models st) s h = r \<and> st' = st"
  by (auto simp: lookup_model_def)


lemma score_record_frame:
  assumes "score_record pm u msg st = (r, st')"
  shows "sent st' = sent st \<and> waited st' = waited st \<and> consumer_errors st' = consumer_errors st"
  using assms unfolding score_record_def Let_def
  by (auto elim!: andthen_cases simp: pure_eq lookup_model_eq ret_def
      dest!: eval_payload_frame call_model_frame' split: prod.splits)


lemma await_bound: "snd (await f timeout) \<le> timeout"
  by (auto simp: await_def split: future.splits)

lemma publish_SendRaises: "publish s out (SendRaises e) st = (Inl e, st)"
  by (simp add: publish_def Let_def producer_send_def andthen_def)

lemma publish_SendReturns:
  "publish s out (SendReturns f) st =
     (case fst (await f 10) of
        None \<Rightarrow>
          (Inr (), st\<lparr>sent := sent st @ [(''predictions_'' @ s, out)],
                     stdout := stdout st @ [Published (''predictions_'' @ s) out],
                     waited := waited st + snd (await f 10)\<rparr>)
      | Some e \<Rightarrow>
          if is_Exception e
          then (Inr (), st\<lparr>sent := sent st @ [(''predictions_'' @ s, out)],
                     stdout := stdout st @ [Published (''predictions_'' @ s) out, ProducerError e],
                     waited := waited st + snd (await f 10)\<rparr>)
          else (Inl e, st\<lparr>sent := sent st @ [(''predictions_'' @ s, out)],
                     stdout := stdout st @ [Published (''predictions_'' @ s) out],
                     waited := waited st + snd (await f 10)\<rparr>))"
  by (simp add: publish_def Let_def producer_send_def andthen_def print_line_def try_except_def
      future_get_def split: prod.splits option.splits)

lemma publish_frame:
  "models (snd (publish s out d st)) = models st
   \<and> waited (snd (publish s out d st)) \<le> waited st + 10"
  using await_bound [of _ 10]
  by (cases d) (auto simp: publish_SendRaises publish_SendReturns split: option.splits)

lemma handle_record_caught:
  assumes "score_record pm u msg st = (Inl e, st1)" and "is_Exception e"
  shows "handle_record pm u (msg, d) st = (Inr (), st1\<lparr>stdout := stdout st1 @ [ConsumerError e]\<rparr>)"
  using assms by (simp add: handle_record_def try_except_def andthen_def print_line_def)

lemma handle_record_escapes:
  assumes "score_record pm u msg st = (Inl e, st1)" and "\<not> is_Exception e"
  shows "handle_record pm u (msg, d) st = (Inl e, st1)"
  using assms by (simp add: handle_record_def try_except_def andthen_def)

lemma handle_record_scored:
  assumes "score_record pm u msg st = (Inr (s, out), st1)"
  shows "handle_record pm u (msg, d) st
     = try_except (publish s out d) (\<lambda>e. print_line (ConsumerError e)) st1"
  using assms by (simp add: handle_record_def try_except_def andthen_def)

lemma handle_record_models:
  "models (snd (handle_record pm u (msg, d) st)) = models (snd (score_record pm u msg st))"
proof (cases "score_record pm u msg st")
  case (Pair r st1)
  show ?thesis
  proof (cases r)
    case (Inl e)
    with Pair show ?thesis
      by (cases "is_Exception e") (simp_all add: handle_record_caught handle_record_escapes)
  next
    case (Inr so)
    obtain s out where so: "so = (s, out)" by (cases so)
    from Pair Inr so have h: "handle_record pm u (msg, d) st
       = try_except (publish s out d) (\<lambda>e. print_line (ConsumerError e)) st1"
      by (simp add: handle_record_scored)
    have "models (snd (try_except (publish s out d) (\<lambda>e. print_line (ConsumerError e)) st1))
        = models (snd (publish s out d st1))"
      by (auto simp: try_except_def print_line_def split: prod.splits sum.splits)
    with h Pair show ?thesis by (simp add: publish_frame)
  qed
qed

lemma handle_record_waited:
  "waited (snd (handle_record pm u (msg, d) st)) \<le> waited st + 10"
proof (cases "score_record pm u msg st")
  case (Pair r st1)
  then have w: "waited st1 = waited st" by (simp add: score_record_frame)
  show ?thesis
  proof (cases r)
    case (Inl e)
    with Pair w show ?thesis
      by (cases "is_Exception e") (simp_all add: handle_record_caught handle_record_escapes)
  next
    case (Inr so)
    obtain s out where so: "so = (s, out)" by (cases so)
    from Pair Inr so have h: "handle_record pm u (msg, d) st
       = try_except (publish s out d) (\<lambda>e. print_line (ConsumerError e)) st1"
      by (simp add: handle_record_scored)
    have "waited (snd (try_except (publish s out d) (\<lambda>e. print_line (ConsumerError e)) st1))
        = waited (snd (publish s out d st1))"
      by (auto simp: try_except_def print_line_def split: prod.splits sum.splits)
    with h w publish_frame [of s out d st1] show ?thesis by simp
  qed
qed

lemma call_model_Inr:
  "call_model s h method st = (Inr x, st') \<Longrightarrow>
     \<exists>m m'. method m = (Inr x, m') \<and> get_model (models st') s h = Inr m'"
proof -
  assume a: "call_model s h method st = (Inr x, st')"
  then obtain m m' where m: "get_model (models st) s h = Inr m" "method m = (Inr x, m')"
    and st': "st' = st\<lparr>models := put_model (models st) s h m'\<rparr>"
    by (auto simp: call_model_def split: sum.splits prod.splits)
  from get_put_model_same [OF m(1), of m'] st' have "get_model (models st') s h = Inr m'"
    by simp
  with m(2) show ?thesis by blast
qed

lemma score_record_evaluated:
  assumes "score_record pm u msg st = (Inr (s, out), st1)"
  shows "\<exists>h m out0 meas m2. evaluate pm m out0 meas = (Inr out, m2)
     \<and> get_model (models st1) s h = Inr m2"
proof -
  from assms obtain h out0 meas st0 where
    "call_model s h (\<lambda>m. evaluate pm m out0 meas) st0 = (Inr out, st1)"
    unfolding score_record_def Let_def
    by (auto elim!: andthen_cases simp: pure_eq lookup_model_eq ret_def split: prod.splits)
  from call_model_Inr [OF this] show ?thesis by blast
qed

lemma displays_of_literals: "py_displays (map Lit vs) = Inr vs"
  by (induction vs) auto

lemma resolve_features_temp_24h: "resolve_topic ''features_temp_24h'' ''h'' = Inr (''temp'', 24)"
  by code_simp

lemma sent_after_publish:
  "sent (snd (try_except (publish s out (SendReturns f)) handler st))
     = sent st @ [(''predictions_'' @ s, out)]" if "\<And>e st. sent (snd (handler e st)) = sent st"
  using that
  by (auto simp: try_except_def publish_SendReturns split: option.splits prod.splits sum.splits)



lemma score_record_unparsable:
  "score_record pm u (Message t Unparsable) st = (Inl SyntaxError, st)"
  by (simp add: score_record_def andthen_def eval_payload_def decode_def)

section \<open>The loop and the consumer\<close>

text \<open>
  The loop goes on after a pass that returns, ends with the exception of a pass that
  raises, and ends with the exception of the consumer when the consumer raises. What
  was handed to the producer stays handed over: the passes only add to it.
\<close>

lemma consume_Nil [simp]: "consume pm u [] st = (Inr (), st)"
  by (simp add: consume_def)

lemma consume_append:
  "consume pm u xs st = (Inr (), st0) \<Longrightarrow> consume pm u (xs @ ys) st = consume pm u ys st0"
  unfolding consume_def by (rule for_each_append)

lemma consume_Yields:
  "handle_record pm u (msg, d) st = (Inr (), st1) \<Longrightarrow>
     consume pm u (Yields msg d # inbound) st = consume pm u inbound st1"
  by (simp add: consume_def for_each.simps next_message_def andthen_def ret_def)

lemma consume_Yields_raises:
  "handle_record pm u (msg, d) st = (Inl e, st1) \<Longrightarrow>
     consume pm u (Yields msg d # inbound) st = (Inl e, st1)"
  by (simp add: consume_def for_each.simps next_message_def andthen_def ret_def)

lemma consume_Fails: "consume pm u (Fails e # inbound) st = (Inl e, st)"
  by (simp add: consume_def for_each.simps next_message_def andthen_def raise_def)

lemma predict_phase_consume:
  assumes "input_topics cfg = Inr topics" and "conf_get conf ''bootstrap_servers'' = Inr servers"
  shows "predict_phase pm cfg conf inbound st
     = consume pm (time_offset cfg) inbound
         (st\<lparr>stdout := stdout st @ [Banner ''=== Predictions phase ==='', Subscribed topics]\<rparr>)"
  using assms by (simp add: predict_phase_def)

lemma handle_record_sent:
  "\<exists>later. sent (snd (handle_record pm u (msg, d) st)) = sent st @ later"
proof (cases "score_record pm u msg st")
  case (Pair r st1)
  then have fr: "sent st1 = sent st" by (simp add: score_record_frame)
  show ?thesis
  proof (cases r)
    case (Inl e)
    with Pair fr show ?thesis
      by (cases "is_Exception e") (simp_all add: handle_record_caught handle_record_escapes)
  next
    case (Inr so)
    obtain s out where so: "so = (s, out)" by (cases so)
    from Pair Inr so have h: "handle_record pm u (msg, d) st
       = try_except (publish s out d) (\<lambda>e. print_line (ConsumerError e)) st1"
      by (simp add: handle_record_scored)
    show ?thesis
    proof (cases d)
      case (SendRaises e)
      with h fr show ?thesis
        by (simp add: try_except_def publish_SendRaises print_line_def)
    next
      case (SendReturns f)
      with h fr show ?thesis
        by (simp add: sent_after_publish print_line_def)
    qed
  qed
qed

lemma consume_sent:
  "\<exists>later. sent (snd (consume pm u inbound st)) = sent st @ later"
proof (induction inbound arbitrary: st)
  case Nil
  show ?case by simp
next
  case (Cons a inbound)
  show ?case
  proof (cases a)
    case (Fails e)
    then show ?thesis by (simp add: consume_Fails)
  next
    case (Yields msg d)
    obtain r st1 where h: "handle_record pm u (msg, d) st = (r, st1)"
      by (cases "handle_record pm u (msg, d) st")
    from handle_record_sent [of pm u msg d st] h
    obtain l1 where l1: "sent st1 = sent st @ l1" by auto
    show ?thesis
    proof (cases r)
      case (Inl e)
      with h Yields l1 show ?thesis by (simp add: consume_Yields_raises)
    next
      case (Inr x)
      with h have "handle_record pm u (msg, d) st = (Inr (), st1)" by simp
      then have "consume pm u (a # inbound) st = consume pm u inbound st1"
        unfolding Yields by (rule consume_Yields)
      moreover from Cons.IH [of st1] obtain l2
        where "sent (snd (consume pm u inbound st1)) = sent st1 @ l2" by blast
      ultimately show ?thesis using l1 by simp
    qed
  qed
qed




section \<open>One record, end to end\<close>

text \<open>
  Claim C5. The loop has run through the records \<open>earlier\<close> and the registry then
  holds a model for \<open>temp\<close> and 24 whose first prediction for the feature vector
  \<open>[20.0, ...]\<close> is 21.5 and whose \<open>evaluate\<close> returns; the time offset is \<open>h\<close>. Next
  the consumer yields a record \<open>{'timestamp': T, 'ftr_vector': [20.0, ...]}\<close> on topic
  \<open>features_temp_24h\<close>. Then the loop hands to the producer, for topic
  \<open>predictions_temp\<close>, a record with the timestamp \<open>T\<close> (under the key \<open>stampm\<close>),
  \<open>value\<close> 21.5, \<open>sensor_id\<close> \<open>temp\<close>, \<open>horizon\<close> 24, the model's predictability and
  the evaluation fields: it is the last record sent when the loop has handled that
  record, the registry then holds the model as \<open>evaluate\<close> left it, and the record
  stays in its place among the records sent whatever the consumer does later.
\<close>

theorem end_to_end_temp_24h:
  assumes "consume pm ''h'' earlier st = (Inr (), st0)"
    and "get_model (models st0) ''temp'' 24 = Inr m"
    and "predict pm m [VList (VFloat 20 # rest)] T = (Inr (VFloat 21.5 # others), m1)"
    and "evaluation pm m1
           [(''stampm'', T), (''value'', VFloat 21.5), (''sensor_id'', VStr ''temp''),
            (''horizon'', VInt 24), (''predictability'', predictability pm m1)]
           (VFloat 20) = (Inr added, m2)"
  shows "sent (snd (consume pm ''h''
            (earlier @
             [Yields (Message ''features_temp_24h''
                (Source (Display (DictDisplay
                   [(Lit (VStr ''timestamp''), Lit T),
                    (Lit (VStr ''ftr_vector''), ListDisplay (Lit (VFloat 20) # map Lit rest))]))))
                (SendReturns f)]) st))
       = sent st0 @
         [(''predictions_temp'',
           [(''stampm'', T), (''value'', VFloat 21.5), (''sensor_id'', VStr ''temp''),
            (''horizon'', VInt 24), (''predictability'', predictability pm m1)] @ added)]
     \<and> get_model (models (snd (consume pm ''h''
            (earlier @
             [Yields (Message ''features_temp_24h''
                (Source (Display (DictDisplay
                   [(Lit (VStr ''timestamp''), Lit T),
                    (Lit (VStr ''ftr_vector''), ListDisplay (Lit (VFloat 20) # map Lit rest))]))))
                (SendReturns f)]) st))) ''temp'' 24 = Inr m2
     \<and> (\<exists>after. sent (snd (consume pm ''h''
            (earlier @
             Yields (Message ''features_temp_24h''
                (Source (Display (DictDisplay
                   [(Lit (VStr ''timestamp''), Lit T),
                    (Lit (VStr ''ftr_vector''), ListDisplay (Lit (VFloat 20) # map Lit rest))]))))
                (SendReturns f) # later) st))
       = sent st0 @
         (''predictions_temp'',
           [(''stampm'', T), (''value'', VFloat 21.5), (''sensor_id'', VStr ''temp''),
            (''horizon'', VInt 24), (''predictability'', predictability pm m1)] @ added) # after)"
proof -
  define msg where "msg = Message ''features_temp_24h''
               (Source (Display (DictDisplay
                  [(Lit (VStr ''timestamp''), Lit T),
                   (Lit (VStr ''ftr_vector''), ListDisplay (Lit (VFloat 20) # map Lit rest))])))"
  define out where "out = [(''stampm'', T), (''value'', VFloat 21.5), (''sensor_id'', VStr ''temp''),
            (''horizon'', VInt 24), (''predictability'', predictability pm m1)] @ added"
  define st1 where "st1 = st0\<lparr>models := put_model (put_model (put_model (models st0) ''temp'' 24 m1)
        ''temp'' 24 m1) ''temp'' 24 m2\<rparr>"
  define st2 where "st2 = snd (handle_record pm ''h'' (msg, SendReturns f) st0)"
  have dec: "eval_payload (msg_value msg) st0
      = (Inr (VDict [(VStr ''timestamp'', T), (VStr ''ftr_vector'', VList (VFloat 20 # rest))]), st0)"
    by (simp add: msg_def eval_payload_def decode_def displays_of_literals py_eq_def)
  have tp: "msg_topic msg = ''features_temp_24h''" by (simp add: msg_def)
  have g1: "get_model (put_model (models st0) ''temp'' 24 m1) ''temp'' 24 = Inr m1"
    using assms(2) by (rule get_put_model_same)
  have g2: "get_model (put_model (put_model (models st0) ''temp'' 24 m1) ''temp'' 24 m1) ''temp'' 24 = Inr m1"
    using g1 by (rule get_put_model_same)
  have ev: "evaluate pm m1
           [(''stampm'', T), (''value'', VFloat 21.5), (''sensor_id'', VStr ''temp''),
            (''horizon'', VInt 24), (''predictability'', predictability pm m1)]
           (VFloat 20) = (Inr out, m2)"
    using assms(4) by (simp add: evaluate_def out_def)
  have sc: "score_record pm ''h'' msg st0 = (Inr (''temp'', out), st1)"
    unfolding score_record_def Let_def
    using assms(2,3) ev
    by (simp add: dec tp py_eq_def py_index_def resolve_features_temp_24h
        lookup_model_def andthen_def pure_def call_model_def g1 g2 ret_def st1_def)
  have s2: "sent st2 = sent st0 @ [(''predictions_temp'', out)]"
    by (simp add: st2_def handle_record_scored [OF sc] sent_after_publish print_line_def st1_def)
  have m2: "get_model (models st2) ''temp'' 24 = Inr m2"
    using get_put_model_same [OF g2, of m2] by (simp add: st2_def handle_record_models sc st1_def)
  have one: "snd (consume pm ''h'' [Yields msg (SendReturns f)] st0) = st2"
    by (cases "handle_record pm ''h'' (msg, SendReturns f) st0")
       (auto simp: st2_def consume_def for_each.simps next_message_def andthen_def ret_def
          split: sum.splits)
  have upto: "snd (consume pm ''h'' (earlier @ [Yields msg (SendReturns f)]) st) = st2"
    using consume_append [OF assms(1), of "[Yields msg (SendReturns f)]"] one by simp
  have "\<exists>after. sent (snd (consume pm ''h'' (earlier @ Yields msg (SendReturns f) # later) st))
      = sent st0 @ (''predictions_temp'', out) # after"
  proof (cases "handle_record pm ''h'' (msg, SendReturns f) st0")
    case (Pair r st')
    then have st': "st' = st2" by (simp add: st2_def)
    show ?thesis
    proof (cases r)
      case (Inl e)
      with Pair have "consume pm ''h'' (Yields msg (SendReturns f) # later) st0 = (Inl e, st2)"
        by (simp add: consume_Yields_raises st')
      with consume_append [OF assms(1), of "Yields msg (SendReturns f) # later"] s2
      show ?thesis by simp
    next
      case (Inr x)
      with Pair have "handle_record pm ''h'' (msg, SendReturns f) st0 = (Inr (), st2)"
        by (simp add: st')
      then have "consume pm ''h'' (Yields msg (SendReturns f) # later) st0 = consume pm ''h'' later st2"
        by (rule consume_Yields)
      moreover obtain l where "sent (snd (consume pm ''h'' later st2)) = sent st2 @ l"
        using consume_sent [of pm "''h''" later st2] by blast
      ultimately show ?thesis
        using consume_append [OF assms(1), of "Yields msg (SendReturns f) # later"] s2 by simp
    qed
  qed
  with upto s2 m2 show ?thesis by (simp add: msg_def out_def)
qed

theorem end_to_end_temp_24h_witness:
  "sent (snd (consume (demo_model []) ''h'' demo_inbound demo_state))
     = [(''predictions_temp'', demo_output)]
   \<and> get_model (models (snd (consume (demo_model []) ''h'' demo_inbound demo_state))) ''temp'' 24
     = Inr (demo_model0\<lparr>scored := 1\<rparr>)
   \<and> sent (snd (main (demo_model []) (no_args\<lparr>arg_predict := True\<rparr>) demo_conf demo_inbound))
     = [(''predictions_temp'', demo_output)]"
proof -
  define st0 where "st0 = demo_state\<lparr>stdout := stdout demo_state @ [ConsumerError SyntaxError]\<rparr>"
  have "handle_record (demo_model []) ''h''
      (Message ''features_temp_24h'' Unparsable, SendReturns (CompletesAfter 1 None)) demo_state
      = (Inr (), st0)"
    by (simp add: st0_def handle_record_caught [OF score_record_unparsable])
  then have "consume (demo_model []) ''h''
      (Yields (Message ''features_temp_24h'' Unparsable) (SendReturns (CompletesAfter 1 None)) # [])
      demo_state = consume (demo_model []) ''h'' [] st0"
    by (rule consume_Yields)
  then have 0: "consume (demo_model []) ''h''
      [Yields (Message ''features_temp_24h'' Unparsable) (SendReturns (CompletesAfter 1 None))]
      demo_state = (Inr (), st0)"
    by simp
  have "get_model (models demo_state) ''temp'' 24 = Inr demo_model0" by code_simp
  then have 1: "get_model (models st0) ''temp'' 24 = Inr demo_model0" by (simp add: st0_def)
  have 2: "predict (demo_model []) demo_model0 [VList (VFloat 20 # [VFloat 19.5])] (VInt 1700000000)
      = (Inr (VFloat 21.5 # []), demo_model0)"
    by (simp add: demo_model_def)
  have 3: "evaluation (demo_model []) demo_model0
           [(''stampm'', VInt 1700000000), (''value'', VFloat 21.5), (''sensor_id'', VStr ''temp''),
            (''horizon'', VInt 24), (''predictability'', predictability (demo_model []) demo_model0)]
           (VFloat 20) = (Inr [(''error'', VNone)], demo_model0\<lparr>scored := 1\<rparr>)"
    by (simp add: demo_model_def demo_model0_def)
  have s: "sent demo_state = []" by code_simp
  then have s0: "sent st0 = []" by (simp add: st0_def)
  have p: "predictability (demo_model []) demo_model0 = VInt 0"
    by (simp add: demo_model_def demo_model0_def)
  have m: "sent (snd (main (demo_model []) (no_args\<lparr>arg_predict := True\<rparr>) demo_conf demo_inbound))
     = [(''predictions_temp'', demo_output)]"
    by code_simp
  from end_to_end_temp_24h [OF 0 1 2 3, where f = "CompletesAfter 1 None"]
  have "sent (snd (consume (demo_model []) ''h'' demo_inbound demo_state))
       = [(''predictions_temp'', demo_output)]
     \<and> get_model (models (snd (consume (demo_model []) ''h'' demo_inbound demo_state))) ''temp'' 24
       = Inr (demo_model0\<lparr>scored := 1\<rparr>)"
    by (simp add: s0 p demo_record_def demo_output_def demo_inbound_def)
  with m show ?thesis by simp
qed

section \<open>The loop over the records\<close>




section \<open>Publishing\<close>

text \<open>
  Claim C8. For a record that got as far as its output record: the model is in the
  registry as \<open>evaluate\<close> left it, and whatever the broker does with the record the
  registry after the pass is that one; the pass waits ten seconds at most; a failed or
  timed out acknowledgment is printed as \<open>Producer error\<close> and a failed \<open>send\<close> as
  \<open>Consumer error\<close>, and the loop goes on.
\<close>

theorem publish_failure_keeps_evaluation:
  assumes "score_record pm u msg st = (Inr (s, out), st1)"
  shows "(\<exists>h m out0 meas m2. evaluate pm m out0 meas = (Inr out, m2)
            \<and> get_model (models st1) s h = Inr m2)
     \<and> (\<forall>d. models (snd (handle_record pm u (msg, d) st)) = models st1)
     \<and> (\<forall>d. waited (snd (handle_record pm u (msg, d) st)) \<le> waited st + 10)
     \<and> (\<forall>f e. fst (await f 10) = Some e \<and> is_Exception e \<longrightarrow>
           handle_record pm u (msg, SendReturns f) st
             = (Inr (), st1\<lparr>sent := sent st1 @ [(''predictions_'' @ s, out)],
                          stdout := stdout st1
                            @ [Published (''predictions_'' @ s) out, ProducerError e],
                          waited := waited st1 + snd (await f 10)\<rparr>))
     \<and> (\<forall>e. is_Exception e \<longrightarrow>
           handle_record pm u (msg, SendRaises e) st
             = (Inr (), st1\<lparr>stdout := stdout st1 @ [ConsumerError e]\<rparr>))"
proof (intro conjI allI impI)
  show "\<exists>h m out0 meas m2. evaluate pm m out0 meas = (Inr out, m2)
            \<and> get_model (models st1) s h = Inr m2"
    using assms by (rule score_record_evaluated)
next
  fix d show "models (snd (handle_record pm u (msg, d) st)) = models st1"
    by (simp add: handle_record_models assms)
next
  fix d show "waited (snd (handle_record pm u (msg, d) st)) \<le> waited st + 10"
    by (rule handle_record_waited)
next
  fix f e assume "fst (await f 10) = Some e \<and> is_Exception e"
  then show "handle_record pm u (msg, SendReturns f) st
             = (Inr (), st1\<lparr>sent := sent st1 @ [(''predictions_'' @ s, out)],
                          stdout := stdout st1
                            @ [Published (''predictions_'' @ s) out, ProducerError e],
                          waited := waited st1 + snd (await f 10)\<rparr>)"
    by (simp add: handle_record_scored [OF assms] try_except_def publish_SendReturns)
next
  fix e assume "is_Exception e"
  then show "handle_record pm u (msg, SendRaises e) st
             = (Inr (), st1\<lparr>stdout := stdout st1 @ [ConsumerError e]\<rparr>)"
    by (simp add: handle_record_scored [OF assms] try_except_def publish_SendRaises print_line_def)
qed

theorem publish_failure_keeps_evaluation_witness:
  "fst (handle_record (demo_model []) ''h'' (demo_record, SendReturns NeverCompletes) demo_state) = Inr ()
   \<and> get_model (models (snd (handle_record (demo_model []) ''h''
        (demo_record, SendReturns NeverCompletes) demo_state))) ''temp'' 24
       = Inr (demo_model0\<lparr>scored := 1\<rparr>)
   \<and> stdout (snd (handle_record (demo_model []) ''h''
        (demo_record, SendReturns NeverCompletes) demo_state))
       = [Initializing ''temp'' 24 ''h'', Published ''predictions_temp'' demo_output,
          ProducerError KafkaTimeoutError]
   \<and> waited (snd (handle_record (demo_model []) ''h''
        (demo_record, SendReturns NeverCompletes) demo_state)) = 10"
proof -
  define st1 where "st1 = snd (score_record (demo_model []) ''h'' demo_record demo_state)"
  have "fst (score_record (demo_model []) ''h'' demo_record demo_state) = Inr (''temp'', demo_output)"
    by code_simp
  then have sc: "score_record (demo_model []) ''h'' demo_record demo_state
      = (Inr (''temp'', demo_output), st1)"
    by (simp add: st1_def prod_eq_iff)
  have a: "fst (await NeverCompletes 10) = Some KafkaTimeoutError \<and> is_Exception KafkaTimeoutError"
    by (simp add: await_def)
  from publish_failure_keeps_evaluation [OF sc] a
  have "handle_record (demo_model []) ''h'' (demo_record, SendReturns NeverCompletes) demo_state
             = (Inr (), st1\<lparr>sent := sent st1 @ [(''predictions_'' @ ''temp'', demo_output)],
                          stdout := stdout st1
                            @ [Published (''predictions_'' @ ''temp'') demo_output,
                               ProducerError KafkaTimeoutError],
                          waited := waited st1 + snd (await NeverCompletes 10)\<rparr>)"
    by blast
  then have r: "fst (handle_record (demo_model []) ''h''
      (demo_record, SendReturns NeverCompletes) demo_state) = Inr ()"
    by simp
  have m: "get_model (models (snd (handle_record (demo_model []) ''h''
        (demo_record, SendReturns NeverCompletes) demo_state))) ''temp'' 24
       = Inr (demo_model0\<lparr>scored := 1\<rparr>)"
    by code_simp
  have l: "stdout (snd (handle_record (demo_model []) ''h''
        (demo_record, SendReturns NeverCompletes) demo_state))
       = [Initializing ''temp'' 24 ''h'', Published ''predictions_temp'' demo_output,
          ProducerError KafkaTimeoutError]"
    by code_simp
  have w: "waited (snd (handle_record (demo_model []) ''h''
        (demo_record, SendReturns NeverCompletes) demo_state)) = 10"
    by code_simp
  from r m l w show ?thesis by simp
qed

section \<open>Loading, saving and the names of the files\<close>

text \<open>
  Claim C7, on the code. The loading phase catches nothing: when the file of the model
  for horizon 12 is missing, \<open>main\<close> ends with the exception of \<open>load\<close>; the model
  for horizon 24, whose file is there, is not loaded and the prediction phase is not
  reached. The fitting phase does catch: with the data of horizon 12 missing, the
  traceback is printed and the model for horizon 24 is fitted.
\<close>

theorem load_failure_aborts:
  "fst (main (demo_model [''models/model_temp_24h''])
         (no_args\<lparr>arg_load := True, arg_predict := True\<rparr>) two_horizons_conf [])
     = Inl (LibraryError ''PersistenceError'')
   \<and> stdout (snd (main (demo_model [''models/model_temp_24h''])
         (no_args\<lparr>arg_load := True, arg_predict := True\<rparr>) two_horizons_conf []))
     = [Banner ''=== Init phase ==='', Initializing ''temp'' 12 ''h'', Initializing ''temp'' 24 ''h'',
        Banner ''=== Loading phase ==='']
   \<and> get_model (models (snd (main (demo_model [''models/model_temp_24h''])
         (no_args\<lparr>arg_load := True, arg_predict := True\<rparr>) two_horizons_conf []))) ''temp'' 24
     = Inr \<lparr>demo_sensor = ''temp'', demo_horizon = 24, fitted = False, scored = 0\<rparr>
   \<and> fst (main (demo_model [''../../data/fused/temp_24h.json''])
         (no_args\<lparr>arg_fit := True\<rparr>) two_horizons_conf []) = Inr ()
   \<and> stdout (snd (main (demo_model [''../../data/fused/temp_24h.json''])
         (no_args\<lparr>arg_fit := True\<rparr>) two_horizons_conf []))
     = [Banner ''=== Init phase ==='', Initializing ''temp'' 12 ''h'', Initializing ''temp'' 24 ''h'',
        Banner ''=== Learning phase ==='', Traceback (LibraryError ''DataError''),
        Trained ''temp'' 24 ''h'' (VFloat 1)]"
  by code_simp

text \<open>
  Claim C9, on the code. With \<open>time_offset\<close> configured as \<open>d\<close>, the phases print the
  model as \<open>temp\<close>, 24, \<open>d\<close>, yet fit from \<open>temp_24h.json\<close> and save to and load from
  \<open>model_temp_24h\<close>: the names are asked for without the time offset, so with the
  default \<open>h\<close> and not with the configured unit.
\<close>

theorem file_names_ignore_time_offset:
  "stdout (snd (main (demo_model [''../../data/fused/temp_24h.json'', ''models/model_temp_24h''])
         (no_args\<lparr>arg_fit := True, arg_save := True, arg_load := True\<rparr>) days_conf []))
     = [Banner ''=== Init phase ==='', Initializing ''temp'' 24 ''d'',
        Banner ''=== Learning phase ==='', Trained ''temp'' 24 ''d'' (VFloat 1),
        Banner ''=== Saving phase ==='', SavedModel ''models/model_temp_24h'',
        Banner ''=== Loading phase ==='', LoadedModel ''models/model_temp_24h'']
   \<and> get_model_file_name ''temp'' 24 (time_offset (read_conf days_conf)) = ''models/model_temp_24d''
   \<and> get_data_file_name ''temp'' 24 (time_offset (read_conf days_conf))
       = ''../../data/fused/temp_24d.json''"
  by code_simp

end
